theory Spec2Isabelle
  imports Complex_Main "HOL-Library.Sublist"
begin

section \<open>Values exchanged between the workflow manager and its collaborators\<close>

text \<open>
  The repository's two source files are \<^verbatim>\<open>main.py\<close> (class \<^verbatim>\<open>DicomWorkflowManager\<close>)
  and \<^verbatim>\<open>webhook_server.py\<close>. The monitors, the processor, the senders and the transfer
  manager are imported modules whose code is not part of the repository's sources; they
  are parameters of the model (record \<open>collab\<close> below).

  A JSON value as \<^verbatim>\<open>request.get_json()\<close> returns it: a dict is an association list
  read with \<open>map_of\<close>.
\<close>

datatype json =
    JNull
  | JBool bool
  | JNum real
  | JStr string
  | JArr "json list"
  | JObj "(string \<times> json) list"

text \<open>A raised Python \<^verbatim>\<open>Exception\<close> with its message, and the outcome of a call.\<close>

datatype exn = Exn string

datatype 'a reply = Return 'a | Raise exn

text \<open>The dict a sender returns from \<^verbatim>\<open>send_batch\<close> / \<^verbatim>\<open>upload_batch_via_api\<close>.\<close>

record send_result =
  successful :: int
  total_files :: int
  failed :: int
  failed_files :: "string list"

text \<open>
  The dict \<^verbatim>\<open>processor.process_file\<close> returns; \<open>processed_files\<close> holds the
  \<^verbatim>\<open>output_path\<close> of each item, \<open>output_directory\<close> is \<open>None\<close> when the key is absent.
\<close>

record processing_result =
  success :: bool
  error_message :: "string option"
  processed_files :: "string list"
  output_directory :: "string option"

record file_info =
  record_id :: string
  original_filename :: string
  drive_file_id :: "string option"

text \<open>The application dict of the Google Sheets mode (built from a row or from a notification).\<close>

record application =
  row_number :: json
  creation_time :: json
  hospital_name :: json
  exam_type :: json
  uploader_name :: json
  uploader_phone :: json
  uploader_email :: json
  filename :: json
  app_identifier :: json
  transmission_time :: json

text \<open>The \<^verbatim>\<open>stats\<close> dict of one cycle (the timestamps are left to the clock).\<close>

record cycle_stats =
  pending_applications :: int
  downloaded_files :: int
  processed_count :: int
  successful_transfers :: int
  failed_transfers :: int
  total_count :: int

text \<open>
  What the engine does that an observer can see, in program order: one event per call of
  a collaborator, per \<^verbatim>\<open>time.sleep\<close>, per warning or error log line and per statistics
  report. \<open>Transmit\<close> carries what the sender answered; \<open>Sleep\<close> is the retry delay of
  the transmit loop and \<open>Slice_sleep\<close> a sleep of the polling loop; \<open>Cycle_start\<close> is the
  entry into the body of the polling loop and \<open>Signal_received\<close> a run of the signal
  handler. Other log lines of level info and debug are not recorded, and the numbers a
  message is formatted with are left out of its text.
\<close>

datatype event =
    Test_connection
  | Get_pending_applications
  | Download_pending_files
  | Find_file_in_drive json
  | Download_file_from_drive
  | Create_file_info
  | Process_file
  | Transmit "send_result reply"
  | Sleep real
  | Notify string string
  | Update_transmission_time
  | Load_user_credentials
  | Build_drive_service
  | Trash_drive_file
  | Delete_drive_file
  | Cleanup_local_file
  | Rmtree string
  | Path_exists string
  | Is_dir string
  | Mkdir string
  | Complete_transfer_process
  | Delete_source_file
  | Clean_downloads
  | Cleanup_work_directory
  | Log_error string
  | Log_warning string
  | Log_statistics cycle_stats
  | Cycle_start int
  | Slice_sleep real
  | Signal_received int
  | Log_lifetime_statistics int int int

section \<open>Programs: state of the collaborators, exceptions, events\<close>

text \<open>
  A program takes the state \<open>'w\<close> of the outside world (everything the collaborators
  own) and gives back what it returned or raised, the new state, and the events it caused.
\<close>

type_synonym ('w, 'a) prog = "'w \<Rightarrow> 'a reply \<times> 'w \<times> event list"

definition ret :: "'a \<Rightarrow> ('w, 'a) prog" where
  "ret x w = (Return x, w, [])"

definition throw :: "exn \<Rightarrow> ('w, 'a) prog" where
  "throw e w = (Raise e, w, [])"

definition andthen :: "('w, 'a) prog \<Rightarrow> ('a \<Rightarrow> ('w, 'b) prog) \<Rightarrow> ('w, 'b) prog" where
  "andthen m f w =
     (case m w of
        (Return x, w1, e1) \<Rightarrow> (case f x w1 of (r, w2, e2) \<Rightarrow> (r, w2, e1 @ e2))
      | (Raise e, w1, e1) \<Rightarrow> (Raise e, w1, e1))"

text \<open>\<^verbatim>\<open>try: m  except Exception as e: h e\<close>\<close>

definition try_except :: "('w, 'a) prog \<Rightarrow> (exn \<Rightarrow> ('w, 'a) prog) \<Rightarrow> ('w, 'a) prog" where
  "try_except m h w =
     (case m w of
        (Return x, w1, e1) \<Rightarrow> (Return x, w1, e1)
      | (Raise e, w1, e1) \<Rightarrow> (case h e w1 of (r, w2, e2) \<Rightarrow> (r, w2, e1 @ e2)))"

text \<open>
  \<^verbatim>\<open>try: m  finally: fin\<close>: \<open>fin\<close> runs whatever \<open>m\<close> did; an exception of \<open>fin\<close>
  replaces the outcome of \<open>m\<close>.
\<close>

definition try_finally :: "('w, 'a) prog \<Rightarrow> ('w, unit) prog \<Rightarrow> ('w, 'a) prog" where
  "try_finally m fin w =
     (case m w of
        (r, w1, e1) \<Rightarrow>
          (case fin w1 of
             (Return _, w2, e2) \<Rightarrow> (r, w2, e1 @ e2)
           | (Raise e, w2, e2) \<Rightarrow> (Raise e, w2, e1 @ e2)))"

definition emit :: "event \<Rightarrow> ('w, unit) prog" where
  "emit ev w = (Return (), w, [ev])"

text \<open>A call of a collaborator: the event may record the answer.\<close>

definition call :: "('a reply \<Rightarrow> event) \<Rightarrow> ('w \<Rightarrow> 'a reply \<times> 'w) \<Rightarrow> ('w, 'a) prog" where
  "call mk f w = (case f w of (r, w1) \<Rightarrow> (r, w1, [mk r]))"

definition if_then :: "bool \<Rightarrow> ('w, unit) prog \<Rightarrow> ('w, unit) prog" where
  "if_then b m = (if b then m else ret ())"

text \<open>A \<^verbatim>\<open>for\<close> loop whose body neither breaks nor returns.\<close>

primrec for_each :: "'a list \<Rightarrow> ('a \<Rightarrow> ('w, unit) prog) \<Rightarrow> ('w, unit) prog" where
  "for_each [] body = ret ()"
| "for_each (x # xs) body = andthen (body x) (\<lambda>_. for_each xs body)"

text \<open>Python's \<^verbatim>\<open>a / b\<close> on integers, in exact arithmetic.\<close>

definition py_truediv :: "int \<Rightarrow> int \<Rightarrow> ('w, real) prog" where
  "py_truediv a b =
     (if b = 0 then throw (Exn ''division by zero'') else ret (real_of_int a / real_of_int b))"

text \<open>\<^verbatim>\<open>range(n)\<close>\<close>

definition py_range :: "int \<Rightarrow> int list" where
  "py_range n = map int [0 ..< nat n]"

text \<open>Truth value of an optional string (\<^verbatim>\<open>None\<close> and \<^verbatim>\<open>''\<close> are false).\<close>

definition truthy :: "string option \<Rightarrow> bool" where
  "truthy v = (case v of None \<Rightarrow> False | Some x \<Rightarrow> x \<noteq> [])"

section \<open>The collaborators and the configuration\<close>

record 'w collab =
  find_file_in_drive :: "json \<Rightarrow> 'w \<Rightarrow> string option reply \<times> 'w"
  download_file_from_drive :: "string option \<Rightarrow> json \<Rightarrow> json \<Rightarrow> 'w \<Rightarrow> string option reply \<times> 'w"
  create_file_info_for_processing :: "application \<Rightarrow> string option \<Rightarrow> 'w \<Rightarrow> file_info reply \<times> 'w"
  cleanup_local_file :: "string option \<Rightarrow> 'w \<Rightarrow> unit reply \<times> 'w"
  update_transmission_time :: "json \<Rightarrow> json \<Rightarrow> 'w \<Rightarrow> bool reply \<times> 'w"
  get_pending_applications :: "'w \<Rightarrow> application list reply \<times> 'w"
  download_pending_files :: "'w \<Rightarrow> file_info list reply \<times> 'w"
  delete_source_file :: "file_info \<Rightarrow> 'w \<Rightarrow> unit reply \<times> 'w"
  has_clean_downloads :: bool
  clean_downloads :: "int \<Rightarrow> 'w \<Rightarrow> unit reply \<times> 'w"
  process_file :: "file_info \<Rightarrow> 'w \<Rightarrow> processing_result reply \<times> 'w"
  cleanup_work_directory :: "int \<Rightarrow> 'w \<Rightarrow> unit reply \<times> 'w"
  test_connection :: "'w \<Rightarrow> bool reply \<times> 'w"
  send_batch :: "string list \<Rightarrow> 'w \<Rightarrow> send_result reply \<times> 'w"
  upload_batch_via_api :: "string list \<Rightarrow> 'w \<Rightarrow> send_result reply \<times> 'w"
  send_error_notification :: "string \<Rightarrow> string \<Rightarrow> 'w \<Rightarrow> unit reply \<times> 'w"
  complete_transfer_process :: "processing_result \<Rightarrow> 'w \<Rightarrow> bool reply \<times> 'w"
  sleep :: "real \<Rightarrow> 'w \<Rightarrow> unit reply \<times> 'w"
  rmtree :: "string \<Rightarrow> 'w \<Rightarrow> unit reply \<times> 'w"
  path_exists :: "string \<Rightarrow> 'w \<Rightarrow> bool reply \<times> 'w"
  is_dir :: "string \<Rightarrow> 'w \<Rightarrow> bool reply \<times> 'w"
  mkdir :: "string \<Rightarrow> 'w \<Rightarrow> unit reply \<times> 'w"
  load_user_credentials :: "'w \<Rightarrow> bool reply \<times> 'w"
  build_drive_service :: "'w \<Rightarrow> unit reply \<times> 'w"
  trash_drive_file :: "string option \<Rightarrow> 'w \<Rightarrow> unit reply \<times> 'w"
  delete_drive_file :: "string option \<Rightarrow> 'w \<Rightarrow> unit reply \<times> 'w"
  now :: "'w \<Rightarrow> real \<times> 'w"
  pending_signals :: "'w \<Rightarrow> int list \<times> 'w"

text \<open>
  The entries of \<^verbatim>\<open>config.json\<close> the manager reads while it runs, with its attributes
  \<^verbatim>\<open>use_orthanc\<close> and \<^verbatim>\<open>use_sheets_mode\<close>.
\<close>

record config =
  max_retry_attempts :: int
  retry_delay_seconds :: real
  cleanup_old_files_days :: int
  processing_directory :: string
  use_orthanc :: bool
  use_sheets_mode :: bool

section \<open>The transmit stage and its retry loop\<close>

text \<open>
  One pass through the body of the \<^verbatim>\<open>for attempt in range(max_retries)\<close> loop of
  \<^verbatim>\<open>process_sheets_application\<close> (main.py, lines 376-429). The result is \<open>True\<close> when
  the body sets \<^verbatim>\<open>send_success = True\<close> and breaks, \<open>False\<close> when the loop goes on.
\<close>

definition log_failed_files :: "string list \<Rightarrow> ('w, unit) prog" where
  "log_failed_files ff =
     if_then (ff \<noteq> [])
       (andthen (emit (Log_warning ''Failed files:'')) (\<lambda>_.
        andthen (for_each (take 3 ff) (\<lambda>f. emit (Log_warning (''  - '' @ f)))) (\<lambda>_.
        if_then (length ff > 3) (emit (Log_warning ''  ... and more files'')))))"

definition sheets_attempt :: "'w collab \<Rightarrow> config \<Rightarrow> string list \<Rightarrow> int \<Rightarrow> ('w, bool) prog" where
  "sheets_attempt c cfg files attempt =
     andthen (call Transmit
                (if use_orthanc cfg then upload_batch_via_api c files else send_batch c files))
       (\<lambda>send_result.
          if successful send_result = total_files send_result then ret True
          else if successful send_result > 0 then
            andthen (py_truediv (successful send_result) (total_files send_result)) (\<lambda>q.
              if q * 100 \<ge> 80 then ret True
              else andthen (emit (Log_warning ''Partial send failure'')) (\<lambda>_. ret False))
          else
            andthen (emit (Log_warning ''File send failed'')) (\<lambda>_.
            andthen (log_failed_files (failed_files send_result)) (\<lambda>_.
            andthen (if_then (attempt < max_retry_attempts cfg - 1)
                       (call (\<lambda>_. Sleep (retry_delay_seconds cfg))
                          (sleep c (retry_delay_seconds cfg)))) (\<lambda>_.
            ret False))))"

text \<open>
  The body of the loop of \<^verbatim>\<open>process_single_workflow\<close> (main.py, lines 251-268), which
  always calls \<^verbatim>\<open>send_batch\<close>.
\<close>

definition local_attempt :: "'w collab \<Rightarrow> config \<Rightarrow> string list \<Rightarrow> int \<Rightarrow> ('w, bool) prog" where
  "local_attempt c cfg files attempt =
     andthen (call Transmit (send_batch c files))
       (\<lambda>send_result.
          if successful send_result = total_files send_result then ret True
          else
            andthen (emit (Log_warning ''Send failed'')) (\<lambda>_.
            andthen (if_then (attempt < max_retry_attempts cfg - 1)
                       (call (\<lambda>_. Sleep (retry_delay_seconds cfg))
                          (sleep c (retry_delay_seconds cfg)))) (\<lambda>_.
            ret False)))"

text \<open>
  The loop itself: \<^verbatim>\<open>send_success\<close> starts \<open>False\<close>, and is the result. An exception
  of the body leaves the loop.
\<close>

primrec retry_loop :: "(int \<Rightarrow> ('w, bool) prog) \<Rightarrow> int list \<Rightarrow> ('w, bool) prog" where
  "retry_loop body [] = ret False"
| "retry_loop body (attempt # rest) =
     andthen (body attempt) (\<lambda>send_success.
       if send_success then ret True else retry_loop body rest)"

definition sheets_send :: "'w collab \<Rightarrow> config \<Rightarrow> string list \<Rightarrow> ('w, bool) prog" where
  "sheets_send c cfg files =
     retry_loop (sheets_attempt c cfg files) (py_range (max_retry_attempts cfg))"

definition local_send :: "'w collab \<Rightarrow> config \<Rightarrow> string list \<Rightarrow> ('w, bool) prog" where
  "local_send c cfg files =
     retry_loop (local_attempt c cfg files) (py_range (max_retry_attempts cfg))"

section \<open>Processing one item\<close>

text \<open>
  The block both per-item functions end with (main.py, lines 292-299 and 462-469):
  empty the processing directory and create it again; any exception is a warning.
\<close>

definition clean_processing_directory :: "'w collab \<Rightarrow> config \<Rightarrow> ('w, unit) prog" where
  "clean_processing_directory c cfg =
     try_except
       (andthen (call (\<lambda>_. Path_exists (processing_directory cfg))
                   (path_exists c (processing_directory cfg))) (\<lambda>ex.
          if \<not> ex then ret ()
          else
            andthen (call (\<lambda>_. Is_dir (processing_directory cfg))
                       (is_dir c (processing_directory cfg))) (\<lambda>d.
              if_then d
                (andthen (call (\<lambda>_. Rmtree (processing_directory cfg))
                            (rmtree c (processing_directory cfg))) (\<lambda>_.
                 call (\<lambda>_. Mkdir (processing_directory cfg))
                   (mkdir c (processing_directory cfg)))))))
       (\<lambda>e. emit (Log_warning ''Error cleaning processing directory''))"

text \<open>
  \<^verbatim>\<open>_delete_drive_file_with_user_auth\<close> (main.py, lines 662-724). Loading the saved
  token and refreshing it is one call that says whether valid credentials are at hand;
  the import error and every other exception end in a warning.
\<close>

definition delete_drive_file_with_user_auth :: "'w collab \<Rightarrow> string option \<Rightarrow> ('w, unit) prog" where
  "delete_drive_file_with_user_auth c file_id =
     try_except
       (andthen (call (\<lambda>_. Load_user_credentials) (load_user_credentials c)) (\<lambda>valid.
          if \<not> valid then
            emit (Log_warning ''No valid user authentication, skipping Google Drive file deletion'')
          else
            andthen (call (\<lambda>_. Build_drive_service) (build_drive_service c)) (\<lambda>_.
            andthen (try_except
                       (andthen (call (\<lambda>_. Trash_drive_file) (trash_drive_file c file_id))
                          (\<lambda>_. ret True))
                       (\<lambda>trash_error. ret False)) (\<lambda>trashed.
              if trashed then ret ()
              else
                try_except (call (\<lambda>_. Delete_drive_file) (delete_drive_file c file_id))
                  (\<lambda>delete_error. emit (Log_warning ''Permanent deletion failed''))))))
       (\<lambda>e. emit (Log_warning ''Error deleting Drive file''))"

text \<open>
  Steps 6 to 8 of \<^verbatim>\<open>process_sheets_application\<close> (main.py, lines 436-481), reached when
  \<^verbatim>\<open>send_success\<close> is true.
\<close>

definition sheets_housekeeping ::
  "'w collab \<Rightarrow> config \<Rightarrow> application \<Rightarrow> string option \<Rightarrow> string option \<Rightarrow> processing_result
     \<Rightarrow> ('w, bool) prog" where
  "sheets_housekeeping c cfg app file_id local_path pr =
     andthen (call (\<lambda>_. Update_transmission_time)
                (update_transmission_time c (row_number app) (app_identifier app))) (\<lambda>updated.
     andthen (if_then (\<not> updated)
                (emit (Log_warning
                   ''Update transmission time failed, but files were sent successfully''))) (\<lambda>_.
     andthen (try_except (delete_drive_file_with_user_auth c file_id)
                (\<lambda>cleanup_error. emit (Log_warning ''Could not delete Google Drive file''))) (\<lambda>_.
     andthen (call (\<lambda>_. Cleanup_local_file) (cleanup_local_file c local_path)) (\<lambda>_.
     andthen (case output_directory pr of
                None \<Rightarrow> ret ()
              | Some d \<Rightarrow>
                  try_except (call (\<lambda>_. Rmtree d) (rmtree c d))
                    (\<lambda>e. emit (Log_warning ''Error cleaning processing work directory''))) (\<lambda>_.
     andthen (clean_processing_directory c cfg) (\<lambda>_.
     ret True))))))"

text \<open>\<^verbatim>\<open>process_sheets_application\<close> (main.py, lines 315-485).\<close>

definition process_sheets_application :: "'w collab \<Rightarrow> config \<Rightarrow> application \<Rightarrow> ('w, bool) prog" where
  "process_sheets_application c cfg app =
     try_except
       (andthen (call (\<lambda>_. Find_file_in_drive (app_identifier app))
                   (find_file_in_drive c (app_identifier app))) (\<lambda>file_id.
          if \<not> truthy file_id then
            andthen (emit (Log_error ''File not found in Google Drive'')) (\<lambda>_. ret False)
          else
            andthen (call (\<lambda>_. Download_file_from_drive)
                       (download_file_from_drive c file_id (filename app) (app_identifier app)))
              (\<lambda>local_path.
          if \<not> truthy local_path then
            andthen (emit (Log_error ''File download failed'')) (\<lambda>_. ret False)
          else
            andthen (call (\<lambda>_. Create_file_info)
                       (create_file_info_for_processing c app local_path)) (\<lambda>fi.
            andthen (call (\<lambda>_. Process_file)
                       (process_file c (fi\<lparr>drive_file_id := file_id\<rparr>))) (\<lambda>processing_result.
          if \<not> success processing_result then
            andthen (emit (Log_error ''File processing failed'')) (\<lambda>_.
            andthen (call (\<lambda>_. Cleanup_local_file) (cleanup_local_file c local_path)) (\<lambda>_.
            ret False))
          else if processed_files processing_result = [] then
            andthen (emit (Log_error ''No files available to send'')) (\<lambda>_.
            andthen (call (\<lambda>_. Cleanup_local_file) (cleanup_local_file c local_path)) (\<lambda>_.
            ret False))
          else
            andthen (sheets_send c cfg (processed_files processing_result)) (\<lambda>send_success.
          if \<not> send_success then
            andthen (emit (Log_error ''File send failed after all attempts'')) (\<lambda>_.
            andthen (call (\<lambda>_. Cleanup_local_file) (cleanup_local_file c local_path)) (\<lambda>_.
            ret False))
          else
            sheets_housekeeping c cfg app file_id local_path processing_result))))))
       (\<lambda>e. andthen (emit (Log_error ''Error processing application'')) (\<lambda>_. ret False))"

text \<open>
  The notifier: \<^verbatim>\<open>transfer_manager.send_error_notification(title, message, ...)\<close>.
\<close>

definition notify :: "'w collab \<Rightarrow> string \<Rightarrow> string \<Rightarrow> ('w, unit) prog" where
  "notify c title message =
     call (\<lambda>_. Notify title message) (send_error_notification c title message)"

definition message_of :: "exn \<Rightarrow> string" where
  "message_of e = (case e of Exn m \<Rightarrow> m)"

text \<open>
  Step 3 of \<^verbatim>\<open>process_single_workflow\<close> (main.py, lines 279-304), reached when
  \<^verbatim>\<open>send_success\<close> is true.
\<close>

definition local_completion ::
  "'w collab \<Rightarrow> config \<Rightarrow> file_info \<Rightarrow> processing_result \<Rightarrow> ('w, bool) prog" where
  "local_completion c cfg file_info pr =
     andthen (call (\<lambda>_. Complete_transfer_process) (complete_transfer_process c pr)) (\<lambda>completed.
       if completed then
         andthen (try_except (call (\<lambda>_. Delete_source_file) (delete_source_file c file_info))
                    (\<lambda>delete_error. emit (Log_warning ''Error deleting source file''))) (\<lambda>_.
         andthen (clean_processing_directory c cfg) (\<lambda>_.
         ret True))
       else
         andthen (emit (Log_error ''Transfer process completion failed'')) (\<lambda>_. ret False))"

text \<open>\<^verbatim>\<open>process_single_workflow\<close> (main.py, lines 211-313).\<close>

definition process_single_workflow :: "'w collab \<Rightarrow> config \<Rightarrow> file_info \<Rightarrow> ('w, bool) prog" where
  "process_single_workflow c cfg file_info =
     try_except
       (andthen (call (\<lambda>_. Process_file) (process_file c file_info)) (\<lambda>processing_result.
          if \<not> success processing_result then
            andthen (emit (Log_error ''File processing failed'')) (\<lambda>_.
            andthen (notify c ''File processing failed''
                       (case error_message processing_result of
                          None \<Rightarrow> ''Unknown error'' | Some m \<Rightarrow> m)) (\<lambda>_.
            ret False))
          else if processed_files processing_result = [] then
            andthen (emit (Log_error ''No files available to send'')) (\<lambda>_. ret False)
          else
            andthen (local_send c cfg (processed_files processing_result)) (\<lambda>send_success.
          if \<not> send_success then
            andthen (emit (Log_error ''File send failed after all attempts'')) (\<lambda>_.
            andthen (notify c ''DICOM file send failed'' ''Failed after all attempts'') (\<lambda>_.
            ret False))
          else
            local_completion c cfg file_info processing_result)))
       (\<lambda>e. andthen (emit (Log_error ''Error processing workflow'')) (\<lambda>_.
             andthen (notify c ''Workflow execution error'' (message_of e)) (\<lambda>_.
             ret False)))"

section \<open>One cycle\<close>

text \<open>
  Inside a cycle the \<^verbatim>\<open>stats\<close> dict is updated in place, so that an exception leaves
  the counts reached so far: the state of a cycle is the world and the dict.
\<close>

definition zero_stats :: cycle_stats where
  "zero_stats =
     \<lparr>pending_applications = 0, downloaded_files = 0, processed_count = 0,
      successful_transfers = 0, failed_transfers = 0, total_count = 0\<rparr>"

definition in_cycle :: "('w, 'a) prog \<Rightarrow> ('w \<times> cycle_stats, 'a) prog" where
  "in_cycle p = (\<lambda>(w, st). case p w of (r, w1, evs) \<Rightarrow> (r, (w1, st), evs))"

definition update_stats :: "(cycle_stats \<Rightarrow> cycle_stats) \<Rightarrow> ('w \<times> cycle_stats, unit) prog" where
  "update_stats f = (\<lambda>(w, st). (Return (), (w, f st), []))"

definition log_statistics :: "('w \<times> cycle_stats, unit) prog" where
  "log_statistics = (\<lambda>(w, st). (Return (), (w, st), [Log_statistics st]))"

definition count_item :: "bool \<Rightarrow> cycle_stats \<Rightarrow> cycle_stats" where
  "count_item ok st =
     (if ok then st\<lparr>successful_transfers := successful_transfers st + 1\<rparr>
      else st\<lparr>failed_transfers := failed_transfers st + 1\<rparr>)
     \<lparr>processed_count := processed_count st + 1\<rparr>"

definition run_cycle :: "('w \<times> cycle_stats, unit) prog \<Rightarrow> ('w, cycle_stats) prog" where
  "run_cycle body w =
     (case body (w, zero_stats) of
        (Return _, (w1, st), evs) \<Rightarrow> (Return st, w1, evs)
      | (Raise e, (w1, st), evs) \<Rightarrow> (Raise e, w1, evs))"

definition connection_error :: "config \<Rightarrow> exn" where
  "connection_error cfg =
     (if use_orthanc cfg then Exn ''Unable to connect to Orthanc server''
      else Exn ''Unable to connect to DICOM server'')"

text \<open>\<^verbatim>\<open>run_sheets_workflow\<close> (main.py, lines 487-543).\<close>

definition run_sheets_workflow :: "'w collab \<Rightarrow> config \<Rightarrow> ('w, cycle_stats) prog" where
  "run_sheets_workflow c cfg =
     run_cycle
       (try_finally
          (try_except
             (andthen (in_cycle (call (\<lambda>_. Test_connection) (test_connection c))) (\<lambda>connected.
                if \<not> connected then throw (connection_error cfg)
                else
                  andthen (in_cycle (call (\<lambda>_. Get_pending_applications)
                                       (get_pending_applications c))) (\<lambda>pending.
                  andthen (update_stats
                             (\<lambda>st. st\<lparr>pending_applications := int (length pending)\<rparr>)) (\<lambda>_.
                  if pending = [] then ret ()
                  else
                    for_each pending (\<lambda>app.
                      andthen (in_cycle (process_sheets_application c cfg app)) (\<lambda>ok.
                      update_stats (count_item ok)))))))
             (\<lambda>e. emit (Log_error
                      ''Critical error during Google Sheets workflow execution'')))
          log_statistics)"

text \<open>\<^verbatim>\<open>cleanup_old_files\<close> (main.py, lines 645-660).\<close>

definition cleanup_old_files :: "'w collab \<Rightarrow> config \<Rightarrow> ('w, unit) prog" where
  "cleanup_old_files c cfg =
     try_except
       (andthen (if_then (has_clean_downloads c)
                   (call (\<lambda>_. Clean_downloads)
                      (clean_downloads c (cleanup_old_files_days cfg)))) (\<lambda>_.
        call (\<lambda>_. Cleanup_work_directory)
          (cleanup_work_directory c (cleanup_old_files_days cfg))))
       (\<lambda>e. emit (Log_error ''Error cleaning up old files''))"

text \<open>\<^verbatim>\<open>run_local_workflow\<close> (main.py, lines 572-643).\<close>

definition run_local_workflow :: "'w collab \<Rightarrow> config \<Rightarrow> ('w, cycle_stats) prog" where
  "run_local_workflow c cfg =
     run_cycle
       (try_finally
          (try_except
             (andthen (in_cycle (call (\<lambda>_. Test_connection) (test_connection c))) (\<lambda>connected.
                if \<not> connected then throw (connection_error cfg)
                else
                  andthen (in_cycle (call (\<lambda>_. Download_pending_files)
                                       (download_pending_files c))) (\<lambda>downloaded.
                  andthen (update_stats
                             (\<lambda>st. st\<lparr>downloaded_files := int (length downloaded),
                                      total_count := int (length downloaded)\<rparr>)) (\<lambda>_.
                  if downloaded = [] then ret ()
                  else
                    andthen (for_each downloaded (\<lambda>file_info.
                               andthen (in_cycle (process_single_workflow c cfg file_info)) (\<lambda>ok.
                               update_stats (count_item ok)))) (\<lambda>_.
                    andthen (in_cycle (cleanup_old_files c cfg)) (\<lambda>_.
                    in_cycle (if_then (has_clean_downloads c)
                                (call (\<lambda>_. Clean_downloads)
                                   (clean_downloads c (cleanup_old_files_days cfg))))))))))
             (\<lambda>e. andthen (emit (Log_error ''Critical error during workflow execution'')) (\<lambda>_.
                   in_cycle (notify c ''System critical error'' (message_of e)))))
          log_statistics)"

definition run_full_workflow :: "'w collab \<Rightarrow> config \<Rightarrow> ('w, cycle_stats) prog" where
  "run_full_workflow c cfg =
     (if use_sheets_mode cfg then run_sheets_workflow c cfg else run_local_workflow c cfg)"

section \<open>The manager's own state and the polling loop\<close>

text \<open>
  The attributes \<^verbatim>\<open>__init__\<close> sets (main.py, lines 41-44) next to the world of the
  collaborators.
\<close>

record 'w manager =
  world :: 'w
  running :: bool
  total_processed :: int
  total_successful :: int
  total_failed :: int

definition init_manager :: "'w \<Rightarrow> 'w manager" where
  "init_manager w =
     \<lparr>world = w, running = True, total_processed = 0, total_successful = 0, total_failed = 0\<rparr>"

definition in_manager :: "('w, 'a) prog \<Rightarrow> ('w manager, 'a) prog" where
  "in_manager p m = (case p (world m) of (r, w1, evs) \<Rightarrow> (r, m\<lparr>world := w1\<rparr>, evs))"

text \<open>\<^verbatim>\<open>signal_handler\<close> (main.py, lines 59-62).\<close>

definition signal_handler :: "int \<Rightarrow> ('w manager, unit) prog" where
  "signal_handler signum m = (Return (), m\<lparr>running := False\<rparr>, [Signal_received signum])"

text \<open>
  Python runs the handler in the main thread, between two of its instructions. The model
  lets the signals that arrived during a call of the outside world (a cycle, a sleep, a
  reading of the clock) be handled when that call returns, before the manager reads
  \<^verbatim>\<open>self.running\<close> again.
\<close>

definition deliver_signals :: "'w collab \<Rightarrow> ('w manager, unit) prog" where
  "deliver_signals c m =
     (case pending_signals c (world m) of
        (sigs, w1) \<Rightarrow> for_each sigs signal_handler (m\<lparr>world := w1\<rparr>))"

definition blocking :: "'w collab \<Rightarrow> ('w, 'a) prog \<Rightarrow> ('w manager, 'a) prog" where
  "blocking c p = try_finally (in_manager p) (deliver_signals c)"

definition clock :: "'w collab \<Rightarrow> ('w, real) prog" where
  "clock c w = (case now c w of (t, w1) \<Rightarrow> (Return t, w1, []))"

definition get_running :: "('w manager, bool) prog" where
  "get_running m = (Return (running m), m, [])"

definition add_totals :: "cycle_stats \<Rightarrow> ('w manager, unit) prog" where
  "add_totals stats m =
     (Return (),
      m\<lparr>total_processed := total_processed m + processed_count stats,
        total_successful := total_successful m + successful_transfers stats,
        total_failed := total_failed m + failed_transfers stats\<rparr>,
      [])"

definition count_failed_cycle :: "('w manager, unit) prog" where
  "count_failed_cycle m = (Return (), m\<lparr>total_failed := total_failed m + 1\<rparr>, [])"

text \<open>
  The \<^verbatim>\<open>try\<close> statement in the body of the polling loop (main.py, lines 763-784).
\<close>

definition cycle_step :: "'w collab \<Rightarrow> config \<Rightarrow> ('w manager, unit) prog" where
  "cycle_step c cfg =
     try_except
       (andthen (blocking c (run_full_workflow c cfg)) (\<lambda>stats. add_totals stats))
       (\<lambda>e. andthen (emit (Log_error ''Error during cycle execution'')) (\<lambda>_.
             count_failed_cycle))"

text \<open>
  The sleep in slices of one second (main.py, lines 803-806): the flag is read before
  each slice.
\<close>

primrec sleep_slices :: "'w collab \<Rightarrow> nat \<Rightarrow> ('w manager, unit) prog" where
  "sleep_slices c 0 = ret ()"
| "sleep_slices c (Suc n) =
     andthen get_running (\<lambda>r.
       if \<not> r then ret ()
       else andthen (blocking c (call (\<lambda>_. Slice_sleep 1) (sleep c 1))) (\<lambda>_.
            sleep_slices c n))"

text \<open>The wait between two cycles (main.py, lines 789-812).\<close>

definition wait_for_next_cycle :: "'w collab \<Rightarrow> int \<Rightarrow> real \<Rightarrow> ('w manager, unit) prog" where
  "wait_for_next_cycle c check_interval cycle_start =
     andthen (blocking c (clock c)) (\<lambda>cycle_end.
       let cycle_duration = cycle_end - cycle_start in
       if cycle_duration < real_of_int check_interval then
         let sleep_time = real_of_int check_interval - cycle_duration in
         andthen (blocking c (clock c)) (\<lambda>_.
         andthen (sleep_slices c (nat \<lfloor>sleep_time\<rfloor>)) (\<lambda>_.
         andthen get_running (\<lambda>r.
           if_then (r \<and> frac sleep_time > 0)
             (blocking c (call (\<lambda>_. Slice_sleep (frac sleep_time))
                            (sleep c (frac sleep_time)))))))
       else emit (Log_warning ''Cycle exceeding interval''))"

text \<open>
  The \<^verbatim>\<open>while self.running\<close> loop (main.py, lines 757-812). The loop need not end, so
  it is given a number of iterations it may make: the result is \<open>None\<close> when they are
  used up with the loop still going, and the number of cycles when the loop was left.
  The events made so far are there in both cases.
\<close>

primrec polling_loop ::
  "nat \<Rightarrow> 'w collab \<Rightarrow> config \<Rightarrow> int \<Rightarrow> int \<Rightarrow> ('w manager, int option) prog" where
  "polling_loop 0 c cfg check_interval cycle_count =
     andthen get_running (\<lambda>r. if \<not> r then ret (Some cycle_count) else ret None)"
| "polling_loop (Suc fuel) c cfg check_interval cycle_count =
     andthen get_running (\<lambda>r.
       if \<not> r then ret (Some cycle_count)
       else
         andthen (emit (Cycle_start (cycle_count + 1))) (\<lambda>_.
         andthen (blocking c (clock c)) (\<lambda>cycle_start.
         andthen (cycle_step c cfg) (\<lambda>_.
         andthen get_running (\<lambda>r.
           if \<not> r then ret (Some (cycle_count + 1))
           else
             andthen (wait_for_next_cycle c check_interval cycle_start) (\<lambda>_.
             polling_loop fuel c cfg check_interval (cycle_count + 1)))))))"

text \<open>\<^verbatim>\<open>run_continuous_mode\<close> (main.py, lines 739-829).\<close>

definition log_lifetime_statistics :: "('w manager, unit) prog" where
  "log_lifetime_statistics m =
     (Return (), m,
      [Log_lifetime_statistics (total_processed m) (total_successful m) (total_failed m)])"

definition run_continuous_mode ::
  "nat \<Rightarrow> 'w collab \<Rightarrow> config \<Rightarrow> int \<Rightarrow> ('w manager, int option) prog" where
  "run_continuous_mode fuel c cfg check_interval =
     andthen (blocking c (clock c)) (\<lambda>start_time.
     andthen (polling_loop fuel c cfg check_interval 0) (\<lambda>left.
       case left of
         None \<Rightarrow> ret None
       | Some cycle_count \<Rightarrow> andthen log_lifetime_statistics (\<lambda>_. ret (Some cycle_count))))"

section \<open>The webhook server\<close>

text \<open>Python's operations on the parsed body, with the exceptions they raise.\<close>

definition py_not :: "json \<Rightarrow> bool" where
  "py_not v =
     (case v of
        JNull \<Rightarrow> True
      | JBool b \<Rightarrow> \<not> b
      | JNum x \<Rightarrow> x = 0
      | JStr s \<Rightarrow> s = []
      | JArr xs \<Rightarrow> xs = []
      | JObj kvs \<Rightarrow> kvs = [])"

text \<open>\<^verbatim>\<open>field in data\<close>\<close>

definition py_in :: "string \<Rightarrow> json \<Rightarrow> bool reply" where
  "py_in field v =
     (case v of
        JObj kvs \<Rightarrow> Return (field \<in> set (map fst kvs))
      | JArr xs \<Rightarrow> Return (JStr field \<in> set xs)
      | JStr s \<Rightarrow> Return (sublist field s)
      | _ \<Rightarrow> Raise (Exn ''TypeError: argument is not iterable''))"

text \<open>\<^verbatim>\<open>data[key]\<close> for a string key\<close>

definition py_getitem :: "json \<Rightarrow> string \<Rightarrow> json reply" where
  "py_getitem v key =
     (case v of
        JObj kvs \<Rightarrow> (case map_of kvs key of None \<Rightarrow> Raise (Exn ''KeyError'') | Some x \<Rightarrow> Return x)
      | _ \<Rightarrow> Raise (Exn ''TypeError: indices must be integers''))"

text \<open>\<^verbatim>\<open>data.get(key, '')\<close>\<close>

definition py_get :: "json \<Rightarrow> string \<Rightarrow> json reply" where
  "py_get v key =
     (case v of
        JObj kvs \<Rightarrow> (case map_of kvs key of None \<Rightarrow> Return (JStr []) | Some x \<Rightarrow> Return x)
      | _ \<Rightarrow> Raise (Exn ''AttributeError: no attribute get''))"

text \<open>
  The list comprehension \<^verbatim>\<open>[field for field in required_fields if field not in data]\<close>:
  the first exception of \<^verbatim>\<open>in\<close> ends it.
\<close>

primrec missing_fields :: "string list \<Rightarrow> json \<Rightarrow> string list reply" where
  "missing_fields [] data = Return []"
| "missing_fields (field # others) data =
     (case py_in field data of
        Raise e \<Rightarrow> Raise e
      | Return present \<Rightarrow>
          (case missing_fields others data of
             Raise e \<Rightarrow> Raise e
           | Return rest \<Rightarrow> Return (if present then rest else field # rest)))"

definition required_fields :: "string list" where
  "required_fields = [''identifier'', ''filename'', ''row_number'']"

text \<open>
  What the handler reads of a request: the method, the header
  \<^verbatim>\<open>X-Webhook-Signature\<close> (\<open>None\<close> when absent), the raw body, and what
  \<^verbatim>\<open>request.get_json()\<close> gives for it (the parsed value, or the exception it raises on
  a body that is not JSON).
\<close>

record request =
  http_method :: string
  signature_header :: "string option"
  raw_data :: string
  get_json :: "json reply"

text \<open>
  The module's globals and its surroundings: \<^verbatim>\<open>app.config.get('ENABLE_AUTH', True)\<close>
  (\<open>None\<close> when the key was never set), \<^verbatim>\<open>WEBHOOK_SECRET\<close>, the keyed hash
  \<^verbatim>\<open>hmac.new(key, payload, sha256).hexdigest()\<close> of the standard library, whether
  \<^verbatim>\<open>workflow_manager\<close> is set, and \<^verbatim>\<open>datetime.now().isoformat()\<close>.
\<close>

record server =
  enable_auth :: "bool option"
  webhook_secret :: string
  hmac_sha256_hex :: "string \<Rightarrow> string \<Rightarrow> string"
  manager_wired :: bool
  now_isoformat :: string

text \<open>\<^verbatim>\<open>verify_webhook_signature\<close> (webhook_server.py, lines 71-88).\<close>

definition verify_webhook_signature :: "server \<Rightarrow> string \<Rightarrow> string \<Rightarrow> bool" where
  "verify_webhook_signature srv payload signature =
     (hmac_sha256_hex srv (webhook_secret srv) payload = signature)"


text \<open>
  A response is the status code and the JSON object of the body. The handler also may
  start the thread that runs \<^verbatim>\<open>process_upload_async(data)\<close>: the second component is
  the \<open>data\<close> of the thread it started, if any.
\<close>

record response =
  status_code :: int
  body :: "(string \<times> json) list"

definition error_response :: "int \<Rightarrow> string \<Rightarrow> response" where
  "error_response code msg = \<lparr>status_code = code, body = [(''error'', JStr msg)]\<rparr>"

text \<open>The part of the handler inside \<^verbatim>\<open>try\<close>, after the signature check (lines 134-170).\<close>

definition accept_notification :: "server \<Rightarrow> request \<Rightarrow> (response \<times> json option) reply" where
  "accept_notification srv req =
     (case get_json req of
        Raise e \<Rightarrow> Raise e
      | Return data \<Rightarrow>
          if py_not data then Return (error_response 400 ''Request content is empty'', None)
          else
            (case missing_fields required_fields data of
               Raise e \<Rightarrow> Raise e
             | Return missing \<Rightarrow>
                 if missing \<noteq> [] then
                   Return (error_response 400 ''Missing required fields'', None)
                 else if \<not> manager_wired srv then
                   Return (error_response 503 ''System not ready'', None)
                 else
                   (case py_getitem data ''identifier'' of
                      Raise e \<Rightarrow>
                        Return (error_response 500 (case e of Exn m \<Rightarrow> m), Some data)
                    | Return ident \<Rightarrow>
                        Return
                          (\<lparr>status_code = 202,
                            body =
                              [(''status'', JStr ''accepted''),
                               (''message'',
                                JStr ''Upload notification received, starting processing''),
                               (''identifier'', ident),
                               (''timestamp'', JStr (now_isoformat srv))]\<rparr>,
                           Some data))))"

text \<open>\<^verbatim>\<open>handle_upload_notification\<close> (webhook_server.py, lines 101-174).\<close>

definition handle_upload_notification :: "server \<Rightarrow> request \<Rightarrow> response \<times> json option" where
  "handle_upload_notification srv req =
     (if http_method req = ''GET'' then
        (\<lparr>status_code = 200,
          body =
            [(''status'', JStr ''ok''),
             (''message'', JStr ''Webhook endpoint is operational''),
             (''service'', JStr ''DICOM Upload Webhook''),
             (''method_required'', JStr ''POST''),
             (''workflow_manager'',
              JStr (if manager_wired srv then ''ready'' else ''not_ready'')),
             (''timestamp'', JStr (now_isoformat srv))]\<rparr>,
         None)
      else if (case enable_auth srv of None \<Rightarrow> True | Some b \<Rightarrow> b)
              \<and> (case signature_header req of None \<Rightarrow> True | Some sg \<Rightarrow> sg = []) then
        (error_response 401 ''Missing signature'', None)
      else if (case enable_auth srv of None \<Rightarrow> True | Some b \<Rightarrow> b)
              \<and> \<not> verify_webhook_signature srv (raw_data req)
                    (case signature_header req of None \<Rightarrow> [] | Some sg \<Rightarrow> sg) then
        (error_response 401 ''Signature verification failed'', None)
      else
        (case accept_notification srv req of
           Raise e \<Rightarrow> (error_response 500 (case e of Exn m \<Rightarrow> m), None)
         | Return answer \<Rightarrow> answer))"

text \<open>
  \<^verbatim>\<open>process_upload_async\<close> (webhook_server.py, lines 177-210), run by the thread on the
  manager the server was given. The first statement of its \<^verbatim>\<open>try\<close> reads
  \<^verbatim>\<open>data['identifier']\<close>.
\<close>

definition from_reply :: "'a reply \<Rightarrow> ('w, 'a) prog" where
  "from_reply r = (case r of Return x \<Rightarrow> ret x | Raise e \<Rightarrow> throw e)"

definition build_application :: "json \<Rightarrow> ('w, application) prog" where
  "build_application data =
     andthen (from_reply (py_getitem data ''identifier'')) (\<lambda>_.
     andthen (from_reply (py_getitem data ''row_number'')) (\<lambda>row.
     andthen (from_reply (py_get data ''creation_time'')) (\<lambda>created.
     andthen (from_reply (py_get data ''hospital_name'')) (\<lambda>hospital.
     andthen (from_reply (py_get data ''exam_type'')) (\<lambda>exam.
     andthen (from_reply (py_get data ''uploader_name'')) (\<lambda>uname.
     andthen (from_reply (py_get data ''uploader_phone'')) (\<lambda>uphone.
     andthen (from_reply (py_get data ''uploader_email'')) (\<lambda>uemail.
     andthen (from_reply (py_getitem data ''filename'')) (\<lambda>fname.
     andthen (from_reply (py_getitem data ''identifier'')) (\<lambda>ident.
     ret \<lparr>row_number = row, creation_time = created, hospital_name = hospital,
          exam_type = exam, uploader_name = uname, uploader_phone = uphone,
          uploader_email = uemail, filename = fname, app_identifier = ident,
          transmission_time = JStr []\<rparr>))))))))))"

definition process_upload_async :: "'w collab \<Rightarrow> config \<Rightarrow> json \<Rightarrow> ('w manager, unit) prog" where
  "process_upload_async c cfg data =
     try_except
       (andthen (build_application data) (\<lambda>app.
        andthen (in_manager (process_sheets_application c cfg app)) (\<lambda>ok.
        if_then (\<not> ok) (emit (Log_error ''Upload processing failed'')))))
       (\<lambda>e. emit (Log_error ''Error during asynchronous upload processing''))"

text \<open>
  A notification from its arrival to the end of the thread it started: the response, and
  the manager and the events after the thread has run.
\<close>

definition dispatch ::
  "'w collab \<Rightarrow> config \<Rightarrow> server \<Rightarrow> request \<Rightarrow> 'w manager
     \<Rightarrow> response \<times> 'w manager \<times> event list" where
  "dispatch c cfg srv req m =
     (case handle_upload_notification srv req of
        (resp, None) \<Rightarrow> (resp, m, [])
      | (resp, Some data) \<Rightarrow>
          (case process_upload_async c cfg data m of (_, m1, evs) \<Rightarrow> (resp, m1, evs)))"

text \<open>\<^verbatim>\<open>webhook_status\<close> (webhook_server.py, lines 227-243): the counters it reports.\<close>

definition webhook_status :: "server \<Rightarrow> 'w manager \<Rightarrow> (int \<times> int \<times> int) option" where
  "webhook_status srv m =
     (if manager_wired srv then Some (total_processed m, total_successful m, total_failed m)
      else None)"

section \<open>Observations on a run\<close>

abbreviation result :: "'a reply \<times> 'w \<times> event list \<Rightarrow> 'a reply" where
  "result run \<equiv> fst run"

abbreviation after :: "'a reply \<times> 'w \<times> event list \<Rightarrow> 'w" where
  "after run \<equiv> fst (snd run)"

abbreviation events :: "'a reply \<times> 'w \<times> event list \<Rightarrow> event list" where
  "events run \<equiv> snd (snd run)"

text \<open>The answers of the transmit attempts among some events, their number, and the
  notifications.\<close>

definition transmits :: "event list \<Rightarrow> send_result reply list" where
  "transmits evs = concat (map (\<lambda>ev. case ev of Transmit r \<Rightarrow> [r] | _ \<Rightarrow> []) evs)"

definition attempts :: "event list \<Rightarrow> nat" where
  "attempts evs = length (transmits evs)"

definition notifications :: "event list \<Rightarrow> (string \<times> string) list" where
  "notifications evs = concat (map (\<lambda>ev. case ev of Notify t m \<Rightarrow> [(t, m)] | _ \<Rightarrow> []) evs)"

text \<open>The delays slept between transmit attempts.\<close>

definition sleeps :: "event list \<Rightarrow> real list" where
  "sleeps evs = concat (map (\<lambda>ev. case ev of Sleep d \<Rightarrow> [d] | _ \<Rightarrow> []) evs)"

text \<open>
  The words of the specification (section 3): a send is satisfied when
  \<open>successful == total\<close>, or when \<open>total > 0\<close> and \<open>successful / total \<ge> 0.80\<close>.
\<close>

definition spec_send_satisfied :: "send_result \<Rightarrow> bool" where
  "spec_send_satisfied r =
     (successful r = total_files r
      \<or> (total_files r > 0
          \<and> real_of_int (successful r) / real_of_int (total_files r) \<ge> 8 / 10))"

text \<open>The lifetime counters, as \<^verbatim>\<open>/webhook/status\<close> and the shutdown summary read them.\<close>

definition lifetime_stats :: "'w manager \<Rightarrow> int \<times> int \<times> int" where
  "lifetime_stats m = (total_processed m, total_successful m, total_failed m)"

text \<open>A program of the manager that leaves the lifetime counters as they are.\<close>

definition keeps_totals :: "('w manager, 'a) prog \<Rightarrow> bool" where
  "keeps_totals p = (\<forall>m. lifetime_stats (after (p m)) = lifetime_stats m)"

text \<open>Classes of events: a notification, a start of the polling loop (a cycle or a
  slice of its sleep), a run of the signal handler.\<close>

definition is_notify :: "event \<Rightarrow> bool" where
  "is_notify ev = (case ev of Notify _ _ \<Rightarrow> True | _ \<Rightarrow> False)"

definition is_start :: "event \<Rightarrow> bool" where
  "is_start ev = (case ev of Cycle_start _ \<Rightarrow> True | Slice_sleep _ \<Rightarrow> True | _ \<Rightarrow> False)"

definition is_signal :: "event \<Rightarrow> bool" where
  "is_signal ev = (case ev of Signal_received _ \<Rightarrow> True | _ \<Rightarrow> False)"

definition scheduler_event :: "event \<Rightarrow> bool" where
  "scheduler_event ev = (is_start ev \<or> is_signal ev)"

text \<open>A slice of the polling loop's sleep that is not within one second.\<close>

definition long_slice :: "event \<Rightarrow> bool" where
  "long_slice ev = (case ev of Slice_sleep d \<Rightarrow> \<not> (0 < d \<and> d \<le> 1) | _ \<Rightarrow> False)"

text \<open>A program none of whose events is of a class.\<close>

definition never :: "(event \<Rightarrow> bool) \<Rightarrow> ('w, 'a) prog \<Rightarrow> bool" where
  "never K p = (\<forall>w. \<forall>ev \<in> set (events (p w)). \<not> K ev)"

text \<open>Events among which no start follows a run of the signal handler.\<close>

primrec quiet_after_signal :: "event list \<Rightarrow> bool" where
  "quiet_after_signal [] = True"
| "quiet_after_signal (ev # evs) =
     ((is_signal ev \<longrightarrow> (\<forall>e \<in> set evs. \<not> is_start e)) \<and> quiet_after_signal evs)"

text \<open>
  A program of the manager that respects the flag from a given state: no start after
  a signal; the flag is still set afterwards only if it was set before and no signal came;
  no start at all when the flag was cleared before.
\<close>

definition orderly :: "('w manager, 'a) prog \<Rightarrow> 'w manager \<Rightarrow> bool" where
  "orderly p m =
     (quiet_after_signal (events (p m))
      \<and> (running (after (p m)) \<longrightarrow> running m \<and> (\<forall>e \<in> set (events (p m)). \<not> is_signal e))
      \<and> (\<not> running m \<longrightarrow> (\<forall>e \<in> set (events (p m)). \<not> is_start e)))"

text \<open>
  What each retry loop makes of an answer of the sender (the tests at main.py, lines 391
  and 401, and at line 256); an exception of the sender satisfies neither.
\<close>

definition sheets_judged :: "send_result reply \<Rightarrow> bool" where
  "sheets_judged rep = (case rep of Return r \<Rightarrow> spec_send_satisfied r | Raise e \<Rightarrow> False)"

definition local_judged :: "send_result reply \<Rightarrow> bool" where
  "local_judged rep = (case rep of Return r \<Rightarrow> successful r = total_files r | Raise e \<Rightarrow> False)"

section \<open>Stub collaborators\<close>

text \<open>
  Deterministic collaborators for running the engine on concrete inputs. The world is
  the number of batches sent so far; the sender answers its \<open>n\<close>-th call with
  \<open>script n\<close>, and every other collaborator does its work without failing: the file is
  found and downloaded, processing gives five DICOM files, one application (or one local
  file) is pending, no signal arrives and the clock stands still.
\<close>

definition outcome :: "int \<Rightarrow> int \<Rightarrow> send_result" where
  "outcome ok n =
     \<lparr>successful = ok, total_files = n, failed = n - ok, failed_files = []\<rparr>"

definition stub_application :: application where
  "stub_application =
     \<lparr>row_number = JNum 2, creation_time = JStr [], hospital_name = JStr [],
      exam_type = JStr [], uploader_name = JStr [], uploader_phone = JStr [],
      uploader_email = JStr [], filename = JStr ''scan.zip'', app_identifier = JStr ''A1'',
      transmission_time = JStr []\<rparr>"

definition stub_file_info :: file_info where
  "stub_file_info =
     \<lparr>record_id = ''P1'', original_filename = ''scan.zip'', drive_file_id = None\<rparr>"

definition stub_processing_result :: processing_result where
  "stub_processing_result =
     \<lparr>success = True, error_message = None,
      processed_files = [''1.dcm'', ''2.dcm'', ''3.dcm'', ''4.dcm'', ''5.dcm''],
      output_directory = Some ''processing/A1''\<rparr>"

definition stub :: "(nat \<Rightarrow> send_result reply) \<Rightarrow> nat collab" where
  "stub script =
     \<lparr>find_file_in_drive = (\<lambda>_ w. (Return (Some ''drive-1''), w)),
      download_file_from_drive = (\<lambda>_ _ _ w. (Return (Some ''downloads/scan.zip''), w)),
      create_file_info_for_processing = (\<lambda>_ _ w. (Return stub_file_info, w)),
      cleanup_local_file = (\<lambda>_ w. (Return (), w)),
      update_transmission_time = (\<lambda>_ _ w. (Return True, w)),
      get_pending_applications = (\<lambda>w. (Return [stub_application], w)),
      download_pending_files = (\<lambda>w. (Return [stub_file_info], w)),
      delete_source_file = (\<lambda>_ w. (Return (), w)),
      has_clean_downloads = True,
      clean_downloads = (\<lambda>_ w. (Return (), w)),
      process_file = (\<lambda>_ w. (Return stub_processing_result, w)),
      cleanup_work_directory = (\<lambda>_ w. (Return (), w)),
      test_connection = (\<lambda>w. (Return True, w)),
      send_batch = (\<lambda>_ w. (script w, Suc w)),
      upload_batch_via_api = (\<lambda>_ w. (script w, Suc w)),
      send_error_notification = (\<lambda>_ _ w. (Return (), w)),
      complete_transfer_process = (\<lambda>_ w. (Return True, w)),
      sleep = (\<lambda>_ w. (Return (), w)),
      rmtree = (\<lambda>_ w. (Return (), w)),
      path_exists = (\<lambda>_ w. (Return True, w)),
      is_dir = (\<lambda>_ w. (Return True, w)),
      mkdir = (\<lambda>_ w. (Return (), w)),
      load_user_credentials = (\<lambda>w. (Return True, w)),
      build_drive_service = (\<lambda>w. (Return (), w)),
      trash_drive_file = (\<lambda>_ w. (Return (), w)),
      delete_drive_file = (\<lambda>_ w. (Return (), w)),
      now = (\<lambda>w. (0, w)),
      pending_signals = (\<lambda>w. ([], w))\<rparr>"

text \<open>A sender whose first batch gets four files of five through, and each later one all five.\<close>

definition four_then_all :: "nat \<Rightarrow> send_result reply" where
  "four_then_all n = (if n = 0 then Return (outcome 4 5) else Return (outcome 5 5))"

text \<open>
  A notification with the three required fields, a server that was given its manager with
  \<^verbatim>\<open>enable_auth=False\<close> (as \<^verbatim>\<open>main\<close> creates it), and one that checks signatures.
\<close>

definition stub_notification :: json where
  "stub_notification =
     JObj [(''identifier'', JStr ''A1''), (''filename'', JStr ''scan.zip''),
           (''row_number'', JNum 2)]"

definition stub_request :: request where
  "stub_request =
     \<lparr>http_method = ''POST'', signature_header = None, raw_data = ''{...}'',
      get_json = Return stub_notification\<rparr>"

definition stub_server :: server where
  "stub_server =
     \<lparr>enable_auth = Some False, webhook_secret = ''change-this-secret-key'',
      hmac_sha256_hex = (\<lambda>key payload. ''0f'' @ payload), manager_wired = True,
      now_isoformat = ''2026-01-01T00:00:00''\<rparr>"

definition all_sent :: "nat \<Rightarrow> send_result reply" where
  "all_sent n = Return (outcome 5 5)"

text \<open>Stubs that fail at one stage.\<close>

definition no_file_in_drive :: "nat collab" where
  "no_file_in_drive = (stub all_sent)\<lparr>find_file_in_drive := (\<lambda>_ w. (Return None, w))\<rparr>"

definition processing_fails :: "nat collab" where
  "processing_fails =
     (stub all_sent)
       \<lparr>process_file :=
          (\<lambda>_ w. (Return (stub_processing_result
                             \<lparr>success := False, error_message := Some ''bad archive''\<rparr>), w))\<rparr>"

definition nothing_sent :: "nat \<Rightarrow> send_result reply" where
  "nothing_sent n = Return (outcome 0 5)"

definition no_artifacts :: "nat collab" where
  "no_artifacts =
     (stub all_sent)
       \<lparr>process_file := (\<lambda>_ w. (Return (stub_processing_result\<lparr>processed_files := []\<rparr>), w))\<rparr>"

text \<open>Stubs whose housekeeping fails.\<close>

definition housekeeping_fails :: "nat collab" where
  "housekeeping_fails =
     (stub all_sent)
       \<lparr>update_transmission_time := (\<lambda>_ _ w. (Return False, w)),
        trash_drive_file := (\<lambda>_ w. (Raise (Exn ''HttpError 403''), w)),
        delete_drive_file := (\<lambda>_ w. (Raise (Exn ''HttpError 403''), w)),
        delete_source_file := (\<lambda>_ w. (Raise (Exn ''PermissionError''), w)),
        rmtree := (\<lambda>_ w. (Raise (Exn ''PermissionError''), w))\<rparr>"

definition completion_fails :: "nat collab" where
  "completion_fails =
     (stub all_sent)\<lparr>complete_transfer_process := (\<lambda>_ w. (Return False, w))\<rparr>"





text \<open>
  A destination that is unreachable while the notifier fails too, the local mode, a
  termination signal (15) that arrives during the second slice of the polling loop's
  sleep, and a manager whose flag was cleared before the loop.
\<close>

definition notifier_down :: "nat collab" where
  "notifier_down =
     (stub all_sent)
       \<lparr>test_connection := (\<lambda>w. (Return False, w)),
        send_error_notification := (\<lambda>_ _ w. (Raise (Exn ''SMTP down''), w))\<rparr>"

definition signal_in_second_slice :: "nat collab" where
  "signal_in_second_slice =
     (stub all_sent)
       \<lparr>sleep := (\<lambda>_ w. (Return (), w + 10)),
        pending_signals := (\<lambda>w. (if 20 \<le> w then [15] else [], w))\<rparr>"

definition stopped_manager :: "nat manager" where
  "stopped_manager = (init_manager 0)\<lparr>running := False\<rparr>"

definition stub_config :: config where
  "stub_config =
     \<lparr>max_retry_attempts = 1, retry_delay_seconds = 30, cleanup_old_files_days = 7,
      processing_directory = ''processing'', use_orthanc = False, use_sheets_mode = True\<rparr>"

definition local_config :: config where
  "local_config = stub_config\<lparr>use_sheets_mode := False\<rparr>"

section \<open>Running programs: basic facts\<close>

lemma run_ret [simp]:
  "result (ret x w) = Return x" "after (ret x w) = w" "events (ret x w) = []"
  by (simp_all add: ret_def)

lemma run_throw [simp]:
  "result (throw e w) = Raise e" "after (throw e w) = w" "events (throw e w) = []"
  by (simp_all add: throw_def)

lemma run_emit [simp]:
  "result (emit ev w) = Return ()" "after (emit ev w) = w" "events (emit ev w) = [ev]"
  by (simp_all add: emit_def)

lemma run_call [simp]:
  "result (call mk f w) = fst (f w)" "after (call mk f w) = snd (f w)"
  "events (call mk f w) = [mk (fst (f w))]"
  by (simp_all add: call_def split: prod.splits)

lemma result_andthen:
  "result (andthen m f w) =
     (case result (m w) of Return x \<Rightarrow> result (f x (after (m w))) | Raise e \<Rightarrow> Raise e)"
  by (simp add: andthen_def split: prod.splits reply.splits)

lemma after_andthen:
  "after (andthen m f w) =
     (case result (m w) of Return x \<Rightarrow> after (f x (after (m w))) | Raise e \<Rightarrow> after (m w))"
  by (simp add: andthen_def split: prod.splits reply.splits)

lemma events_andthen:
  "events (andthen m f w) =
     events (m w)
     @ (case result (m w) of Return x \<Rightarrow> events (f x (after (m w))) | Raise e \<Rightarrow> [])"
  by (simp add: andthen_def split: prod.splits reply.splits)

lemma result_try_except:
  "result (try_except m h w) =
     (case result (m w) of Return x \<Rightarrow> Return x | Raise e \<Rightarrow> result (h e (after (m w))))"
  by (simp add: try_except_def split: prod.splits reply.splits)

lemma after_try_except:
  "after (try_except m h w) =
     (case result (m w) of Return x \<Rightarrow> after (m w) | Raise e \<Rightarrow> after (h e (after (m w))))"
  by (simp add: try_except_def split: prod.splits reply.splits)

lemma events_try_except:
  "events (try_except m h w) =
     events (m w)
     @ (case result (m w) of Return x \<Rightarrow> [] | Raise e \<Rightarrow> events (h e (after (m w))))"
  by (simp add: try_except_def split: prod.splits reply.splits)

lemma result_try_finally:
  "result (try_finally m fin w) =
     (case result (fin (after (m w))) of Return _ \<Rightarrow> result (m w) | Raise e \<Rightarrow> Raise e)"
  by (simp add: try_finally_def split: prod.splits reply.splits)

lemma after_try_finally:
  "after (try_finally m fin w) = after (fin (after (m w)))"
  by (simp add: try_finally_def split: prod.splits reply.splits)

lemma events_try_finally:
  "events (try_finally m fin w) = events (m w) @ events (fin (after (m w)))"
  by (simp add: try_finally_def split: prod.splits reply.splits)

lemmas run_simps =
  result_andthen after_andthen events_andthen
  result_try_except after_try_except events_try_except
  result_try_finally after_try_finally events_try_finally

lemma transmits_simps [simp]:
  "transmits [] = []"
  "transmits (ev # evs) = (case ev of Transmit r \<Rightarrow> [r] | _ \<Rightarrow> []) @ transmits evs"
  "transmits (xs @ ys) = transmits xs @ transmits ys"
  by (simp_all add: transmits_def)

lemma notifications_simps [simp]:
  "notifications [] = []"
  "notifications (ev # evs)
     = (case ev of Notify t m \<Rightarrow> [(t, m)] | _ \<Rightarrow> []) @ notifications evs"
  "notifications (xs @ ys) = notifications xs @ notifications ys"
  by (simp_all add: notifications_def)

lemma sleeps_simps [simp]:
  "sleeps [] = []"
  "sleeps (ev # evs) = (case ev of Sleep d \<Rightarrow> [d] | _ \<Rightarrow> []) @ sleeps evs"
  "sleeps (xs @ ys) = sleeps xs @ sleeps ys"
  by (simp_all add: sleeps_def)

section \<open>The judgement of a transmit attempt\<close>

lemma for_each_emit: "for_each xs (\<lambda>x. emit (g x)) w = (Return (), w, map g xs)"
  by (induction xs) (simp_all add: ret_def andthen_def emit_def)

lemma log_failed_files_run:
  "result (log_failed_files ff w) = Return ()" "after (log_failed_files ff w) = w"
  "transmits (events (log_failed_files ff w)) = []"
  by (simp_all add: log_failed_files_def if_then_def run_simps for_each_emit transmits_def)

lemma ratio_test:
  assumes "s \<noteq> t" "0 < s"  "t \<noteq> 0"
  shows "(80 \<le> real_of_int s / real_of_int t * 100) = (0 < t \<and> 8 / 10 \<le> real_of_int s / real_of_int t)"
proof (cases "0 < t")
  case True
  define q where "q = real_of_int s / real_of_int t"
  have "(80 \<le> q * 100) = (8 / 10 \<le> q)" by linarith
  with True show ?thesis by (simp add: q_def)
next
  case False
  with assms have "t < 0" by simp
  define q where "q = real_of_int s / real_of_int t"
  from \<open>t < 0\<close> assms have "q < 0"
    by (simp add: q_def divide_pos_neg)
  then have "\<not> 80 \<le> q * 100" by linarith
  with False show ?thesis unfolding q_def by blast
qed

lemma sheets_attempt_result:
  "(result (sheets_attempt c cfg files a w) = Return True)
   = sheets_judged (fst ((if use_orthanc cfg then upload_batch_via_api c files else send_batch c files) w))"
proof (cases "fst ((if use_orthanc cfg then upload_batch_via_api c files else send_batch c files) w)")
  case (Raise e)
  then show ?thesis
    by (simp add: sheets_attempt_def result_andthen sheets_judged_def)
next
  case (Return r)
  show ?thesis
  proof (cases "successful r = total_files r")
    case True
    with Return show ?thesis
      by (simp add: sheets_attempt_def result_andthen sheets_judged_def spec_send_satisfied_def)
  next
    case ne: False
    show ?thesis
    proof (cases "0 < successful r")
      case pos: True
      show ?thesis
      proof (cases "total_files r = 0")
        case True
        with Return ne pos show ?thesis
          by (simp add: sheets_attempt_def result_andthen sheets_judged_def spec_send_satisfied_def
              py_truediv_def)
      next
        case False
        define q where "q = real_of_int (successful r) / real_of_int (total_files r)"
        have "(80 \<le> q * 100) = spec_send_satisfied r"
          unfolding q_def spec_send_satisfied_def
          using ne ratio_test [OF ne pos False] by blast
        moreover have "(result (sheets_attempt c cfg files a w) = Return True) = (80 \<le> q * 100)"
          using Return ne pos False
          by (simp add: sheets_attempt_def result_andthen py_truediv_def q_def [symmetric])
        ultimately show ?thesis
          using Return by (simp add: sheets_judged_def)
      qed
    next
      case False
      have "\<not> spec_send_satisfied r"
      proof
        assume "spec_send_satisfied r"
        with ne have t: "0 < total_files r"
          and q: "8 / 10 \<le> real_of_int (successful r) / real_of_int (total_files r)"
          by (auto simp: spec_send_satisfied_def)
        from False t have "real_of_int (successful r) / real_of_int (total_files r) \<le> 0"
          by (simp add: divide_nonpos_pos)
        with q show False by linarith
      qed
      moreover have "result (sheets_attempt c cfg files a w) \<noteq> Return True"
        using Return ne False
        by (simp add: sheets_attempt_def result_andthen after_andthen log_failed_files_run if_then_def
            split: reply.splits)
      ultimately show ?thesis
        using Return by (simp add: sheets_judged_def)
    qed
  qed
qed


lemma sheets_attempt_events:
  "\<exists>tail. events (sheets_attempt c cfg files a w)
            = Transmit (fst ((if use_orthanc cfg then upload_batch_via_api c files
                              else send_batch c files) w)) # tail
          \<and> transmits tail = []
          \<and> (result (sheets_attempt c cfg files a w) = Return True \<longrightarrow> tail = [])"
  by (cases "fst ((if use_orthanc cfg then upload_batch_via_api c files else send_batch c files) w)")
     (simp_all add: sheets_attempt_def run_simps log_failed_files_run if_then_def py_truediv_def
        split: reply.splits)

lemma local_attempt_result:
  "(result (local_attempt c cfg files a w) = Return True)
   = local_judged (fst (send_batch c files w))"
  by (cases "fst (send_batch c files w)")
     (simp_all add: local_attempt_def run_simps if_then_def local_judged_def split: reply.splits)

lemma local_attempt_events:
  "\<exists>tail. events (local_attempt c cfg files a w) = Transmit (fst (send_batch c files w)) # tail
          \<and> transmits tail = []
          \<and> (result (local_attempt c cfg files a w) = Return True \<longrightarrow> tail = [])"
  by (cases "fst (send_batch c files w)")
     (simp_all add: local_attempt_def run_simps if_then_def split: reply.splits)

lemma retry_loop_shape:
  assumes step: "\<And>a w. \<exists>rep tail. events (bd a w) = Transmit rep # tail \<and> transmits tail = []
                    \<and> (result (bd a w) = Return True \<longrightarrow> tail = [])
                    \<and> (result (bd a w) = Return True) = judged rep"
  shows "length (transmits (events (retry_loop bd as w))) \<le> length as
       \<and> (\<forall>i. Suc i < length (transmits (events (retry_loop bd as w)))
              \<longrightarrow> \<not> judged (transmits (events (retry_loop bd as w)) ! i))
       \<and> ((result (retry_loop bd as w) = Return True)
            = (transmits (events (retry_loop bd as w)) \<noteq> []
               \<and> judged (last (transmits (events (retry_loop bd as w))))))
       \<and> (result (retry_loop bd as w) = Return True
            \<longrightarrow> (\<exists>pre rep. events (retry_loop bd as w) = pre @ [Transmit rep]))"
proof (induction as arbitrary: w)
  case Nil
  show ?case by simp
next
  case (Cons a rest)
  obtain rep tail where ev: "events (bd a w) = Transmit rep # tail"
    and nt: "transmits tail = []"
    and tl: "result (bd a w) = Return True \<longrightarrow> tail = []"
    and jd: "(result (bd a w) = Return True) = judged rep"
    using step by blast
  show ?case
  proof (cases "result (bd a w)")
    case (Raise e)
    with jd have "\<not> judged rep" by simp
    with Raise ev nt show ?thesis
      by (simp add: run_simps)
  next
    case (Return ok)
    show ?thesis
    proof (cases ok)
      case True
      with Return jd tl ev show ?thesis
        by (simp add: run_simps)
    next
      case False
      with Return jd have nj: "\<not> judged rep" by simp
      let ?w1 = "after (bd a w)"
      let ?ts = "transmits (events (retry_loop bd rest ?w1))"
      have ts: "transmits (events (bd a w) @ events (retry_loop bd rest ?w1)) = rep # ?ts"
        using ev nt by simp
      have res: "result (retry_loop bd (a # rest) w) = result (retry_loop bd rest ?w1)"
        using Return False by (simp add: run_simps)
      have evs: "events (retry_loop bd (a # rest) w)
                 = events (bd a w) @ events (retry_loop bd rest ?w1)"
        using Return False by (simp add: run_simps)
      note IH = Cons.IH [of ?w1]
      have 1: "length (rep # ?ts) \<le> length (a # rest)"
        using IH by simp
      have 2: "\<forall>i. Suc i < length (rep # ?ts) \<longrightarrow> \<not> judged ((rep # ?ts) ! i)"
      proof (intro allI impI)
        fix i assume "Suc i < length (rep # ?ts)"
        then show "\<not> judged ((rep # ?ts) ! i)"
          using IH nj by (cases i) simp_all
      qed
      have 3: "(result (retry_loop bd rest ?w1) = Return True)
               = (rep # ?ts \<noteq> [] \<and> judged (last (rep # ?ts)))"
        using IH nj by simp
      have 4: "result (retry_loop bd rest ?w1) = Return True
               \<longrightarrow> (\<exists>pre r. events (bd a w) @ events (retry_loop bd rest ?w1) = pre @ [Transmit r])"
      proof
        assume "result (retry_loop bd rest ?w1) = Return True"
        with IH obtain pre r where "events (retry_loop bd rest ?w1) = pre @ [Transmit r]"
          by blast
        then have "events (bd a w) @ events (retry_loop bd rest ?w1)
                   = (events (bd a w) @ pre) @ [Transmit r]"
          by simp
        then show "\<exists>pre r. events (bd a w) @ events (retry_loop bd rest ?w1) = pre @ [Transmit r]"
          by blast
      qed
      from 1 2 3 4 show ?thesis
        unfolding res evs ts by blast
    qed
  qed
qed


text \<open>
  C1. Claimed: for an outcome with \<open>total > 0\<close> the send is judged satisfied exactly when
  \<open>successful == total\<close> or \<open>successful / total \<ge> 0.80\<close>, on the sheets/push path and
  on the local poll path alike. The loop of \<^verbatim>\<open>process_sheets_application\<close> judges so
  (\<open>sheets_attempt_result\<close> above). The loop of \<^verbatim>\<open>process_single_workflow\<close> accepts
  \<open>successful == total\<close> only (\<open>local_attempt_result\<close>): with four files of five sent,
  a ratio of exactly 0.80, the local path reports the send as failed after its attempts,
  notifies the failure and returns \<open>False\<close>, where the sheets path returns \<open>True\<close>.
\<close>

theorem local_path_fails_ratio_080:
  "spec_send_satisfied (outcome 4 5)
   \<and> process_single_workflow (stub (\<lambda>_. Return (outcome 4 5))) stub_config stub_file_info 0
       = (Return False, 1,
          [Process_file, Transmit (Return (outcome 4 5)), Log_warning ''Send failed'',
           Log_error ''File send failed after all attempts'',
           Notify ''DICOM file send failed'' ''Failed after all attempts''])
   \<and> result (process_sheets_application (stub (\<lambda>_. Return (outcome 4 5))) stub_config
                stub_application 0)
       = Return True"
  by code_simp

section \<open>The retry loop\<close>

lemma sheets_send_shape:
  "attempts (events (sheets_send c cfg files w)) \<le> nat (max_retry_attempts cfg)
   \<and> (\<forall>i. Suc i < attempts (events (sheets_send c cfg files w))
          \<longrightarrow> \<not> sheets_judged (transmits (events (sheets_send c cfg files w)) ! i))
   \<and> ((result (sheets_send c cfg files w) = Return True)
        = (transmits (events (sheets_send c cfg files w)) \<noteq> []
           \<and> sheets_judged (last (transmits (events (sheets_send c cfg files w))))))
   \<and> (result (sheets_send c cfg files w) = Return True
        \<longrightarrow> (\<exists>pre rep. events (sheets_send c cfg files w) = pre @ [Transmit rep]))"
proof -
  have step: "\<exists>rep tail. events (sheets_attempt c cfg files a v) = Transmit rep # tail
                \<and> transmits tail = []
                \<and> (result (sheets_attempt c cfg files a v) = Return True \<longrightarrow> tail = [])
                \<and> (result (sheets_attempt c cfg files a v) = Return True) = sheets_judged rep"
    for a v
    using sheets_attempt_events [of c cfg files a v] sheets_attempt_result [of c cfg files a v]
    by blast
  show ?thesis
    using retry_loop_shape [of "sheets_attempt c cfg files" sheets_judged
        "py_range (max_retry_attempts cfg)" w, OF step]
    by (simp add: sheets_send_def attempts_def py_range_def)
qed

lemma local_send_shape:
  "attempts (events (local_send c cfg files w)) \<le> nat (max_retry_attempts cfg)
   \<and> (\<forall>i. Suc i < attempts (events (local_send c cfg files w))
          \<longrightarrow> \<not> local_judged (transmits (events (local_send c cfg files w)) ! i))
   \<and> ((result (local_send c cfg files w) = Return True)
        = (transmits (events (local_send c cfg files w)) \<noteq> []
           \<and> local_judged (last (transmits (events (local_send c cfg files w))))))
   \<and> (result (local_send c cfg files w) = Return True
        \<longrightarrow> (\<exists>pre rep. events (local_send c cfg files w) = pre @ [Transmit rep]))"
proof -
  have step: "\<exists>rep tail. events (local_attempt c cfg files a v) = Transmit rep # tail
                \<and> transmits tail = []
                \<and> (result (local_attempt c cfg files a v) = Return True \<longrightarrow> tail = [])
                \<and> (result (local_attempt c cfg files a v) = Return True) = local_judged rep"
    for a v
    using local_attempt_events [of c cfg files a v] local_attempt_result [of c cfg files a v]
    by blast
  show ?thesis
    using retry_loop_shape [of "local_attempt c cfg files" local_judged
        "py_range (max_retry_attempts cfg)" w, OF step]
    by (simp add: local_send_def attempts_def py_range_def)
qed

text \<open>
  The retry delay. Either loop sleeps \<open>retry_delay_seconds\<close> and nothing else, at most
  once per attempt, never after an attempt that returned \<open>True\<close> and never after the
  attempt of index \<open>max_retry_attempts - 1\<close>.
\<close>

lemma log_failed_files_sleeps: "sleeps (events (log_failed_files ff w)) = []"
  by (simp add: log_failed_files_def if_then_def run_simps for_each_emit sleeps_def)

lemma sheets_attempt_sleeps:
  "sleeps (events (sheets_attempt c cfg files a w)) = []
   \<or> (sleeps (events (sheets_attempt c cfg files a w)) = [retry_delay_seconds cfg]
      \<and> a < max_retry_attempts cfg - 1
      \<and> result (sheets_attempt c cfg files a w) \<noteq> Return True)"
  by (cases "fst ((if use_orthanc cfg then upload_batch_via_api c files else send_batch c files) w)")
     (simp_all add: sheets_attempt_def run_simps log_failed_files_run log_failed_files_sleeps
        if_then_def py_truediv_def split: reply.splits)

lemma local_attempt_sleeps:
  "sleeps (events (local_attempt c cfg files a w)) = []
   \<or> (sleeps (events (local_attempt c cfg files a w)) = [retry_delay_seconds cfg]
      \<and> a < max_retry_attempts cfg - 1
      \<and> result (local_attempt c cfg files a w) \<noteq> Return True)"
  by (cases "fst (send_batch c files w)")
     (simp_all add: local_attempt_def run_simps if_then_def split: reply.splits)

lemma retry_loop_sleeps:
  assumes one: "\<And>a w. length (transmits (events (bd a w))) = 1"
    and sl: "\<And>a w. sleeps (events (bd a w)) = []
               \<or> (sleeps (events (bd a w)) = [d] \<and> a < N - 1 \<and> result (bd a w) \<noteq> Return True)"
  shows "length (sleeps (events (retry_loop bd (map int [i..<n]) w)))
           \<le> length (transmits (events (retry_loop bd (map int [i..<n]) w)))
       \<and> (result (retry_loop bd (map int [i..<n]) w) = Return True
          \<longrightarrow> length (sleeps (events (retry_loop bd (map int [i..<n]) w)))
              < length (transmits (events (retry_loop bd (map int [i..<n]) w))))
       \<and> int (length (sleeps (events (retry_loop bd (map int [i..<n]) w))))
           \<le> max 0 (N - 1 - int i)
       \<and> set (sleeps (events (retry_loop bd (map int [i..<n]) w))) \<subseteq> {d}"
proof (induction "n - i" arbitrary: i w)
  case 0
  then have emp: "map int [i..<n] = []" by simp
  show ?case unfolding emp by simp
next
  case (Suc k)
  then have lt: "i < n" and k: "k = n - Suc i" by simp_all
  have up: "map int [i..<n] = int i # map int [Suc i..<n]"
    using lt by (simp add: upt_conv_Cons)
  note IH = Suc.hyps(1) [OF k]
  let ?h = "bd (int i) w"
  from sl [of "int i" w] one [of "int i" w] show ?case
  proof (cases "result ?h")
    case (Raise e)
    with sl [of "int i" w] one [of "int i" w] show ?thesis
      unfolding up by (auto simp: run_simps)
  next
    case (Return ok)
    show ?thesis
    proof (cases ok)
      case True
      with Return sl [of "int i" w] one [of "int i" w] show ?thesis
        unfolding up by (auto simp: run_simps)
    next
      case False
      with Return sl [of "int i" w] one [of "int i" w] IH [of "after ?h"] show ?thesis
        unfolding up by (auto simp: run_simps)
    qed
  qed
qed


lemma sheets_send_sleeps:
  "length (sleeps (events (sheets_send c cfg files w))) \<le> attempts (events (sheets_send c cfg files w))
   \<and> (result (sheets_send c cfg files w) = Return True
        \<longrightarrow> length (sleeps (events (sheets_send c cfg files w)))
            < attempts (events (sheets_send c cfg files w)))
   \<and> int (length (sleeps (events (sheets_send c cfg files w))))
        \<le> max 0 (max_retry_attempts cfg - 1)
   \<and> set (sleeps (events (sheets_send c cfg files w))) \<subseteq> {retry_delay_seconds cfg}"
proof -
  have one: "length (transmits (events (sheets_attempt c cfg files a v))) = 1" for a v
    using sheets_attempt_events [of c cfg files a v] by auto
  show ?thesis
    using retry_loop_sleeps [of "sheets_attempt c cfg files" "retry_delay_seconds cfg"
        "max_retry_attempts cfg" 0 "nat (max_retry_attempts cfg)" w,
        OF one sheets_attempt_sleeps]
    by (simp add: sheets_send_def attempts_def py_range_def)
qed

lemma local_send_sleeps:
  "length (sleeps (events (local_send c cfg files w))) \<le> attempts (events (local_send c cfg files w))
   \<and> (result (local_send c cfg files w) = Return True
        \<longrightarrow> length (sleeps (events (local_send c cfg files w)))
            < attempts (events (local_send c cfg files w)))
   \<and> int (length (sleeps (events (local_send c cfg files w))))
        \<le> max 0 (max_retry_attempts cfg - 1)
   \<and> set (sleeps (events (local_send c cfg files w))) \<subseteq> {retry_delay_seconds cfg}"
proof -
  have one: "length (transmits (events (local_attempt c cfg files a v))) = 1" for a v
    using local_attempt_events [of c cfg files a v] by auto
  show ?thesis
    using retry_loop_sleeps [of "local_attempt c cfg files" "retry_delay_seconds cfg"
        "max_retry_attempts cfg" 0 "nat (max_retry_attempts cfg)" w,
        OF one local_attempt_sleeps]
    by (simp add: local_send_def attempts_def py_range_def)
qed

text \<open>
  C2. Claimed: with \<open>max_retry_attempts = N\<close> the transmit stage is attempted at most
  \<open>N\<close> times and stops at the first satisfied attempt, so that a sender that is first
  satisfied on attempt \<open>k \<le> N\<close> is called exactly \<open>k\<close> times; the retry delay is slept
  only between attempts, never after a satisfied attempt. Both loops make at most \<open>N\<close>
  attempts and stop at the first attempt they judge satisfied (\<open>sheets_send_shape\<close>,
  \<open>local_send_shape\<close>). The local loop judges by \<open>successful == total\<close> alone, so with
  \<open>N = 2\<close> and a sender whose first answer is four files of five (satisfied, ratio
  0.80) it sleeps the retry delay after that attempt and sends the batch a second time;
  the sheets loop stops after the first attempt.
\<close>

theorem local_retry_goes_on_after_satisfied_attempt:
  "spec_send_satisfied (outcome 4 5)
   \<and> local_send (stub four_then_all) (stub_config\<lparr>max_retry_attempts := 2\<rparr>)
         (processed_files stub_processing_result) 0
       = (Return True, 2,
          [Transmit (Return (outcome 4 5)), Log_warning ''Send failed'', Sleep 30,
           Transmit (Return (outcome 5 5))])
   \<and> sheets_send (stub four_then_all) (stub_config\<lparr>max_retry_attempts := 2\<rparr>)
         (processed_files stub_processing_result) 0
       = (Return True, 1, [Transmit (Return (outcome 4 5))])"
  by code_simp

section \<open>The lifetime counters\<close>

lemma keeps_ret: "keeps_totals (ret x)"
  and keeps_throw: "keeps_totals (throw e)"
  and keeps_emit: "keeps_totals (emit ev)"
  by (simp_all add: keeps_totals_def)

lemma keeps_in_manager: "keeps_totals (in_manager p)"
  by (simp add: keeps_totals_def in_manager_def lifetime_stats_def split: prod.splits)

lemma keeps_from_reply: "keeps_totals (from_reply r)"
  by (cases r) (simp_all add: keeps_totals_def from_reply_def)

lemma keeps_andthen:
  "keeps_totals p \<Longrightarrow> (\<And>x. keeps_totals (f x)) \<Longrightarrow> keeps_totals (andthen p f)"
  by (simp add: keeps_totals_def after_andthen split: reply.splits)

lemma keeps_try_except:
  "keeps_totals p \<Longrightarrow> (\<And>e. keeps_totals (h e)) \<Longrightarrow> keeps_totals (try_except p h)"
  by (simp add: keeps_totals_def after_try_except split: reply.splits)

lemma keeps_if_then: "keeps_totals p \<Longrightarrow> keeps_totals (if_then b p)"
  by (simp add: if_then_def keeps_ret)

lemma keeps_build_application: "keeps_totals (build_application data)"
  unfolding build_application_def
  by (intro keeps_andthen keeps_from_reply keeps_ret)

lemma process_upload_async_keeps: "keeps_totals (process_upload_async c cfg data)"
  unfolding process_upload_async_def
  by (intro keeps_try_except keeps_andthen keeps_build_application keeps_in_manager
      keeps_if_then keeps_emit)

lemma push_dispatch_run:
  "(case dispatch (stub all_sent) stub_config stub_server stub_request (init_manager 0) of
      (resp, m1, evs) \<Rightarrow>
        status_code resp = 202 \<and> lifetime_stats m1 = (0, 0, 0)
        \<and> transmits evs = [Return (outcome 5 5)]
        \<and> webhook_status stub_server m1 = Some (0, 0, 0))"
  by code_simp

lemma scheduler_cycle_run:
  "lifetime_stats (after (cycle_step (stub all_sent) stub_config (init_manager 0))) = (1, 1, 0)"
  by code_simp

text \<open>
  C3. Claimed: an item processed through the push path updates the lifetime counters as
  the scheduler path does. \<^verbatim>\<open>process_upload_async\<close> calls
  \<^verbatim>\<open>process_sheets_application\<close> and logs its result; neither writes
  \<^verbatim>\<open>total_processed\<close>, \<^verbatim>\<open>total_successful\<close> or \<^verbatim>\<open>total_failed\<close>, which only
  \<^verbatim>\<open>run_continuous_mode\<close> does. So the counters are the same before and after every
  push, whatever the notification and the collaborators: one valid notification whose
  item is sent in full leaves them at 0, 0, 0 (and \<^verbatim>\<open>/webhook/status\<close> reports that),
  where one polling cycle over the same item gives 1, 1, 0.
\<close>

theorem push_path_leaves_lifetime_stats:
  "lifetime_stats (after (process_upload_async c cfg data m)) = lifetime_stats m
   \<and> (case dispatch (stub all_sent) stub_config stub_server stub_request (init_manager 0) of
        (resp, m1, evs) \<Rightarrow>
          status_code resp = 202 \<and> lifetime_stats m1 = (0, 0, 0)
          \<and> transmits evs = [Return (outcome 5 5)]
          \<and> webhook_status stub_server m1 = Some (0, 0, 0))
   \<and> lifetime_stats (after (cycle_step (stub all_sent) stub_config (init_manager 0)))
       = (1, 1, 0)"
  using process_upload_async_keeps [of c cfg data] push_dispatch_run scheduler_cycle_run
  unfolding keeps_totals_def by blast

section \<open>Events a program never causes; notifications\<close>

lemma never_ret: "never K (ret x)"
  and never_throw: "never K (throw e)"
  by (simp_all add: never_def)

lemma never_emit: "\<not> K ev \<Longrightarrow> never K (emit ev)"
  by (simp add: never_def)

lemma never_call: "(\<And>r. \<not> K (mk r)) \<Longrightarrow> never K (call mk f)"
  by (simp add: never_def)

lemma never_andthen: "never K p \<Longrightarrow> (\<And>x. never K (f x)) \<Longrightarrow> never K (andthen p f)"
  by (auto simp: never_def events_andthen split: reply.splits)

lemma never_try_except: "never K p \<Longrightarrow> (\<And>e. never K (h e)) \<Longrightarrow> never K (try_except p h)"
  by (auto simp: never_def events_try_except split: reply.splits)

lemma never_try_finally: "never K p \<Longrightarrow> never K q \<Longrightarrow> never K (try_finally p q)"
  by (auto simp: never_def events_try_finally)

lemma never_if_then: "never K p \<Longrightarrow> never K (if_then b p)"
  by (simp add: if_then_def never_ret)

lemma never_if: "never K p \<Longrightarrow> never K q \<Longrightarrow> never K (if b then p else q)"
  by simp

lemma never_case_option:
  "never K p \<Longrightarrow> (\<And>x. never K (q x)) \<Longrightarrow> never K (case v of None \<Rightarrow> p | Some x \<Rightarrow> q x)"
  by (cases v) simp_all

lemma never_for_each: "(\<And>x. never K (f x)) \<Longrightarrow> never K (for_each xs f)"
  by (induction xs) (simp_all add: never_ret never_andthen)

lemma never_retry_loop: "(\<And>a. never K (bd a)) \<Longrightarrow> never K (retry_loop bd as)"
  by (induction as) (simp_all add: never_ret never_andthen)

lemma never_py_truediv: "never K (py_truediv a b)"
  by (simp add: py_truediv_def never_ret never_throw)

lemma never_in_cycle: "never K p \<Longrightarrow> never K (in_cycle p)"
  by (auto simp: never_def in_cycle_def split: prod.splits) (metis snd_conv)

lemma never_update_stats: "never K (update_stats f)"
  by (simp add: never_def update_stats_def split: prod.splits)

lemma never_log_statistics: "(\<And>st. \<not> K (Log_statistics st)) \<Longrightarrow> never K log_statistics"
  by (simp add: never_def log_statistics_def split: prod.splits)

lemma never_run_cycle: "never K p \<Longrightarrow> never K (run_cycle p)"
  by (auto simp: never_def run_cycle_def split: prod.splits reply.splits) (metis snd_conv)+

lemmas never_intros = never_ret never_throw never_emit never_call never_andthen never_try_except
  never_try_finally never_if_then never_if never_case_option never_for_each never_retry_loop
  never_py_truediv never_in_cycle never_update_stats never_log_statistics never_run_cycle

lemmas event_class_defs = is_notify_def is_start_def is_signal_def scheduler_event_def

lemma never_notify_sheets_send: "never is_notify (sheets_send c cfg files)"
  unfolding sheets_send_def sheets_attempt_def log_failed_files_def
  by (intro never_intros) (simp_all add: is_notify_def)

lemma never_notify_process_sheets_application:
  "never is_notify (process_sheets_application c cfg app)"
  unfolding process_sheets_application_def sheets_housekeeping_def
    clean_processing_directory_def delete_drive_file_with_user_auth_def
  by (intro never_intros never_notify_sheets_send) (simp_all add: is_notify_def)

lemma notifications_none: "\<forall>ev \<in> set evs. \<not> is_notify ev \<Longrightarrow> notifications evs = []"
  by (induction evs) (auto simp: is_notify_def split: event.splits)

text \<open>
  C5. Claimed: on every per-item path the notifier is invoked when the item fails by a
  fetch failure, by a transform failure or after the transmit retries are used up, and
  never for acknowledge or cleanup failures. \<^verbatim>\<open>process_single_workflow\<close> notifies a
  failed processing and a failed send (and any exception it catches).
  \<^verbatim>\<open>process_sheets_application\<close> contains no call of
  \<^verbatim>\<open>send_error_notification\<close>: whatever the collaborators do, a run of it makes no
  notification. A file that is not found, a processing that fails and a send that fails
  on its only attempt each end in \<open>False\<close> with log lines alone.
\<close>

theorem sheets_path_never_notifies:
  "notifications (events (process_sheets_application c cfg app w)) = []
   \<and> process_sheets_application no_file_in_drive stub_config stub_application 0
       = (Return False, 0,
          [Find_file_in_drive (JStr ''A1''), Log_error ''File not found in Google Drive''])
   \<and> process_sheets_application processing_fails stub_config stub_application 0
       = (Return False, 0,
          [Find_file_in_drive (JStr ''A1''), Download_file_from_drive, Create_file_info,
           Process_file, Log_error ''File processing failed'', Cleanup_local_file])
   \<and> process_sheets_application (stub nothing_sent) stub_config stub_application 0
       = (Return False, 1,
          [Find_file_in_drive (JStr ''A1''), Download_file_from_drive, Create_file_info,
           Process_file, Transmit (Return (outcome 0 5)), Log_warning ''File send failed'',
           Log_error ''File send failed after all attempts'', Cleanup_local_file])"
proof -
  have "notifications (events (process_sheets_application c cfg app w)) = []"
    using never_notify_process_sheets_application [of c cfg app]
    by (simp add: never_def notifications_none)
  moreover have "process_sheets_application no_file_in_drive stub_config stub_application 0
       = (Return False, 0,
          [Find_file_in_drive (JStr ''A1''), Log_error ''File not found in Google Drive''])"
    by code_simp
  moreover have "process_sheets_application processing_fails stub_config stub_application 0
       = (Return False, 0,
          [Find_file_in_drive (JStr ''A1''), Download_file_from_drive, Create_file_info,
           Process_file, Log_error ''File processing failed'', Cleanup_local_file])"
    by code_simp
  moreover have "process_sheets_application (stub nothing_sent) stub_config stub_application 0
       = (Return False, 1,
          [Find_file_in_drive (JStr ''A1''), Download_file_from_drive, Create_file_info,
           Process_file, Transmit (Return (outcome 0 5)), Log_warning ''File send failed'',
           Log_error ''File send failed after all attempts'', Cleanup_local_file])"
    by code_simp
  ultimately show ?thesis
    by blast
qed

section \<open>A cycle whose destination is unreachable\<close>

lemma deliver_signals_returns: "result (deliver_signals c m) = Return ()"
proof -
  have "result (for_each sigs signal_handler v) = Return ()" for sigs and v :: "'a manager"
    by (induction sigs arbitrary: v) (simp_all add: result_andthen signal_handler_def)
  then show ?thesis
    by (simp add: deliver_signals_def split: prod.splits)
qed

lemma cycle_step_returns: "result (cycle_step c cfg m) = Return ()"
  by (simp add: cycle_step_def result_try_except result_andthen add_totals_def
      count_failed_cycle_def split: reply.splits)

text \<open>
  C6. Claimed: when the connectivity probe reports unreachable, the cycle aborts before
  it obtains or processes any pending item, its statistics are still finalized and
  emitted with zero processed, a system-level error notification is issued, and the
  process does not crash. \<^verbatim>\<open>run_local_workflow\<close> does all of it.
  \<^verbatim>\<open>run_sheets_workflow\<close> does all but the notification: its \<^verbatim>\<open>except\<close> clause only
  logs the error, so the events of such a cycle are the probe, the error line and the
  statistics, and no notification.
\<close>

theorem unreachable_sheets_cycle_not_notified:
  "run_sheets_workflow (c\<lparr>test_connection := (\<lambda>v. (Return False, v))\<rparr>) cfg w
     = (Return zero_stats, w,
        [Test_connection, Log_error ''Critical error during Google Sheets workflow execution'',
         Log_statistics zero_stats])
   \<and> events (run_local_workflow (c\<lparr>test_connection := (\<lambda>v. (Return False, v))\<rparr>) cfg w)
     = [Test_connection, Log_error ''Critical error during workflow execution'',
        Notify ''System critical error'' (message_of (connection_error cfg)),
        Log_statistics zero_stats]"
  by (simp add: run_sheets_workflow_def run_local_workflow_def run_cycle_def try_finally_def
      try_except_def andthen_def in_cycle_def call_def emit_def throw_def log_statistics_def
      notify_def split: prod.splits reply.splits)

section \<open>An item without output artifacts\<close>

text \<open>
  C7. Claimed: when the transform stage yields no output artifact the orchestrator
  returns a failure with the reason "no files available to send", makes no transmit
  attempt and invokes the notifier exactly once. Both per-item functions log the error
  \<^verbatim>\<open>No files available to send\<close>, return \<open>False\<close> and never reach the sender; neither
  calls the notifier in this branch, although \<^verbatim>\<open>process_single_workflow\<close> does so in the
  branch before it (processing reported a failure) and in the one after it (send failed).
\<close>

theorem no_artifacts_not_notified:
  "process_single_workflow
     (c\<lparr>process_file := (\<lambda>_ v. (Return (pr\<lparr>success := True, processed_files := []\<rparr>), v))\<rparr>)
     cfg fi w
     = (Return False, w, [Process_file, Log_error ''No files available to send''])
   \<and> process_sheets_application no_artifacts stub_config stub_application 0
     = (Return False, 0,
        [Find_file_in_drive (JStr ''A1''), Download_file_from_drive, Create_file_info,
         Process_file, Log_error ''No files available to send'', Cleanup_local_file])
   \<and> process_single_workflow processing_fails stub_config stub_file_info 0
     = (Return False, 0,
        [Process_file, Log_error ''File processing failed'',
         Notify ''File processing failed'' ''bad archive''])"
proof -
  have "process_single_workflow
     (c\<lparr>process_file := (\<lambda>_ v. (Return (pr\<lparr>success := True, processed_files := []\<rparr>), v))\<rparr>)
     cfg fi w
     = (Return False, w, [Process_file, Log_error ''No files available to send''])"
    by (simp add: process_single_workflow_def try_except_def andthen_def call_def emit_def
        ret_def)
  moreover have "process_sheets_application no_artifacts stub_config stub_application 0
     = (Return False, 0,
        [Find_file_in_drive (JStr ''A1''), Download_file_from_drive, Create_file_info,
         Process_file, Log_error ''No files available to send'', Cleanup_local_file])"
    by code_simp
  moreover have "process_single_workflow processing_fails stub_config stub_file_info 0
     = (Return False, 0,
        [Process_file, Log_error ''File processing failed'',
         Notify ''File processing failed'' ''bad archive''])"
    by code_simp
  ultimately show ?thesis
    by blast
qed

section \<open>Housekeeping after a satisfied send\<close>

lemma guarded_returns: "result (try_except p (\<lambda>e. emit ev) w) = Return ()"
  by (cases "result (p w)") (simp_all add: result_try_except)

lemma clean_processing_directory_returns: "result (clean_processing_directory c cfg w) = Return ()"
  unfolding clean_processing_directory_def by (rule guarded_returns)

lemma delete_drive_file_returns: "result (delete_drive_file_with_user_auth c fid w) = Return ()"
  unfolding delete_drive_file_with_user_auth_def by (rule guarded_returns)

lemma sheets_housekeeping_returns:
  assumes ack: "\<And>row i v. \<exists>b. fst (update_transmission_time c row i v) = Return b"
    and cleanup: "\<And>p v. fst (cleanup_local_file c p v) = Return ()"
  shows "result (sheets_housekeeping c cfg app fid lp pr w) = Return True"
proof -
  obtain b where b: "fst (update_transmission_time c (row_number app) (app_identifier app) w) = Return b"
    using ack by blast
  show ?thesis
    unfolding sheets_housekeeping_def
    by (simp add: result_andthen after_andthen b cleanup guarded_returns
        clean_processing_directory_returns if_then_def delete_drive_file_returns
        split: option.splits reply.splits)
qed

lemma sheets_send_satisfied:
  assumes "Return r \<in> set (transmits (events (sheets_send c cfg files w)))"
    and "spec_send_satisfied r"
  shows "result (sheets_send c cfg files w) = Return True"
proof -
  let ?ts = "transmits (events (sheets_send c cfg files w))"
  from assms(1) obtain i where i: "i < length ?ts" "?ts ! i = Return r"
    by (auto simp: in_set_conv_nth)
  have j: "sheets_judged (?ts ! i)"
    using i assms(2) by (simp add: sheets_judged_def)
  have "\<not> Suc i < length ?ts"
    using sheets_send_shape [of c cfg files w] j by (auto simp: attempts_def)
  with i have eq: "i = length ?ts - 1" by simp
  from i have ne: "?ts \<noteq> []" by auto
  have "last ?ts = ?ts ! i"
    unfolding eq by (rule last_conv_nth [OF ne])
  with j ne have "?ts \<noteq> [] \<and> sheets_judged (last ?ts)"
    by simp
  then show ?thesis
    using sheets_send_shape [of c cfg files w] by blast
qed

lemma sheets_success_kept:
  assumes sat: "\<exists>r. Return r \<in> set (transmits (events (process_sheets_application c cfg app w)))
                  \<and> spec_send_satisfied r"
    and ack: "\<And>row i v. \<exists>b. fst (update_transmission_time c row i v) = Return b"
    and cleanup: "\<And>p v. fst (cleanup_local_file c p v) = Return ()"
  shows "result (process_sheets_application c cfg app w) = Return True"
  using sat
  unfolding process_sheets_application_def
  apply (simp add: run_simps sheets_housekeeping_returns [OF ack cleanup] cleanup
      split: reply.splits if_splits)
  apply (auto dest: sheets_send_satisfied)
  done


lemma local_completion_returns:
  assumes completed: "\<And>pr v. fst (complete_transfer_process c pr v) = Return True"
  shows "result (local_completion c cfg fi pr w) = Return True"
  unfolding local_completion_def
  by (simp add: result_andthen after_andthen completed guarded_returns
      clean_processing_directory_returns)

lemma local_send_satisfied:
  assumes "Return r \<in> set (transmits (events (local_send c cfg files w)))"
    and "successful r = total_files r"
  shows "result (local_send c cfg files w) = Return True"
proof -
  let ?ts = "transmits (events (local_send c cfg files w))"
  from assms(1) obtain i where i: "i < length ?ts" "?ts ! i = Return r"
    by (auto simp: in_set_conv_nth)
  have j: "local_judged (?ts ! i)"
    using i assms(2) by (simp add: local_judged_def)
  have "\<not> Suc i < length ?ts"
    using local_send_shape [of c cfg files w] j by (auto simp: attempts_def)
  with i have eq: "i = length ?ts - 1" by simp
  from i have ne: "?ts \<noteq> []" by auto
  have "last ?ts = ?ts ! i"
    unfolding eq by (rule last_conv_nth [OF ne])
  with j ne have "?ts \<noteq> [] \<and> local_judged (last ?ts)"
    by simp
  then show ?thesis
    using local_send_shape [of c cfg files w] by blast
qed

lemma report_failure_transmits:
  "transmits (events (andthen (emit (Log_error s)) (\<lambda>_. andthen (notify c t m) (\<lambda>_. ret False)) v))
   = []"
  by (simp add: run_simps notify_def split: reply.splits)

lemma local_success_kept:
  assumes sat: "\<exists>r. Return r \<in> set (transmits (events (process_single_workflow c cfg fi w)))
                  \<and> successful r = total_files r"
    and completed: "\<And>pr v. fst (complete_transfer_process c pr v) = Return True"
  shows "result (process_single_workflow c cfg fi w) = Return True"
proof (cases "fst (process_file c fi w)")
  case (Raise e)
  then have "transmits (events (process_single_workflow c cfg fi w)) = []"
    unfolding process_single_workflow_def
    by (auto simp: events_try_except events_andthen result_andthen after_andthen
        notify_def split: reply.splits)
  with sat show ?thesis by simp
next
  case (Return pr)
  let ?w1 = "snd (process_file c fi w)"
  show ?thesis
  proof (cases "success pr \<and> processed_files pr \<noteq> []")
    case False
    with Return have "transmits (events (process_single_workflow c cfg fi w)) = []"
      unfolding process_single_workflow_def
      by (auto simp: events_try_except events_andthen result_andthen after_andthen
          report_failure_transmits notify_def split: reply.splits)
    with sat show ?thesis by simp
  next
    case ok: True
    show ?thesis
    proof (cases "result (local_send c cfg (processed_files pr) ?w1) = Return True")
      case True
      with Return ok show ?thesis
        unfolding process_single_workflow_def
        by (simp add: result_try_except result_andthen after_andthen
            local_completion_returns [OF completed])
    next
      case False
      have "transmits (events (process_single_workflow c cfg fi w))
            = transmits (events (local_send c cfg (processed_files pr) ?w1))"
        using Return ok False unfolding process_single_workflow_def
        by (cases "result (local_send c cfg (processed_files pr) ?w1)")
           (auto simp: events_try_except events_andthen result_andthen after_andthen
              report_failure_transmits notify_def split: reply.splits)
      with sat False local_send_satisfied [of _ c cfg "processed_files pr" ?w1]
      show ?thesis by auto
    qed
  qed
qed


text \<open>
  C4 (as amended). After a satisfied transmit the item stays a success whatever the
  housekeeping does, in these terms. On the sheets/push path: when a run of
  \<^verbatim>\<open>process_sheets_application\<close> holds a transmit attempt that satisfies the 0.80
  rule, and \<^verbatim>\<open>update_transmission_time\<close> and \<^verbatim>\<open>cleanup_local_file\<close> return (the first
  with any value) rather than raise, the result is \<open>True\<close>, whether or not deleting
  the Drive file or removing the work directories fails. On the local path: when a run
  of \<^verbatim>\<open>process_single_workflow\<close> holds an attempt that sent every file and
  \<^verbatim>\<open>complete_transfer_process\<close> answers \<open>True\<close>, the result is \<open>True\<close>, whether or not
  deleting the source file or emptying the processing directory fails.
\<close>

theorem housekeeping_failures_keep_success:
  "((\<exists>r. Return r \<in> set (transmits (events (process_sheets_application c cfg app w)))
          \<and> spec_send_satisfied r)
      \<and> (\<forall>row i v. \<exists>b. fst (update_transmission_time c row i v) = Return b)
      \<and> (\<forall>p v. fst (cleanup_local_file c p v) = Return ())
     \<longrightarrow> result (process_sheets_application c cfg app w) = Return True)
   \<and> ((\<exists>r. Return r \<in> set (transmits (events (process_single_workflow c cfg fi w)))
          \<and> successful r = total_files r)
      \<and> (\<forall>pr v. fst (complete_transfer_process c pr v) = Return True)
     \<longrightarrow> result (process_single_workflow c cfg fi w) = Return True)"
  using sheets_success_kept [of c cfg app w] local_success_kept [of c cfg fi w]
  by blast

text \<open>
  A run of each path in which the acknowledgement is refused and every deletion fails:
  the warnings are logged and the item succeeds.
\<close>

theorem housekeeping_failures_keep_success_witness:
  "(\<exists>r. Return r \<in> set (transmits (events
            (process_sheets_application housekeeping_fails stub_config stub_application 0)))
        \<and> spec_send_satisfied r)
   \<and> (\<forall>row i v. \<exists>b. fst (update_transmission_time housekeeping_fails row i v) = Return b)
   \<and> (\<forall>p v. fst (cleanup_local_file housekeeping_fails p v) = Return ())
   \<and> Log_warning ''Update transmission time failed, but files were sent successfully''
       \<in> set (events (process_sheets_application housekeeping_fails stub_config
                        stub_application 0))
   \<and> result (process_sheets_application housekeeping_fails stub_config stub_application 0)
       = Return True
   \<and> (\<exists>r. Return r \<in> set (transmits (events
            (process_single_workflow housekeeping_fails stub_config stub_file_info 0)))
        \<and> successful r = total_files r)
   \<and> (\<forall>pr v. fst (complete_transfer_process housekeeping_fails pr v) = Return True)
   \<and> Log_warning ''Error deleting source file''
       \<in> set (events (process_single_workflow housekeeping_fails stub_config stub_file_info 0))
   \<and> result (process_single_workflow housekeeping_fails stub_config stub_file_info 0)
       = Return True"
proof -
  have ts: "transmits (events
              (process_sheets_application housekeeping_fails stub_config stub_application 0))
            = [Return (outcome 5 5)]"
    by code_simp
  have tl: "transmits (events
              (process_single_workflow housekeeping_fails stub_config stub_file_info 0))
            = [Return (outcome 5 5)]"
    by code_simp
  have sat: "spec_send_satisfied (outcome 5 5)" "successful (outcome 5 5) = total_files (outcome 5 5)"
    by (simp_all add: spec_send_satisfied_def outcome_def)
  have h1: "\<exists>r. Return r \<in> set (transmits (events
            (process_sheets_application housekeeping_fails stub_config stub_application 0)))
        \<and> spec_send_satisfied r"
    using ts sat by simp
  have h2: "\<forall>row i v. \<exists>b. fst (update_transmission_time housekeeping_fails row i v) = Return b"
    by (auto simp: housekeeping_fails_def stub_def)
  have h3: "\<forall>p v. fst (cleanup_local_file housekeeping_fails p v) = Return ()"
    by (simp add: housekeeping_fails_def stub_def)
  have h4: "\<exists>r. Return r \<in> set (transmits (events
            (process_single_workflow housekeeping_fails stub_config stub_file_info 0)))
        \<and> successful r = total_files r"
    using tl sat by simp
  have h5: "\<forall>pr v. fst (complete_transfer_process housekeeping_fails pr v) = Return True"
    by (simp add: housekeeping_fails_def stub_def)
  have w1: "Log_warning ''Update transmission time failed, but files were sent successfully''
       \<in> set (events (process_sheets_application housekeeping_fails stub_config
                        stub_application 0))"
    by code_simp
  have w2: "Log_warning ''Error deleting source file''
       \<in> set (events (process_single_workflow housekeeping_fails stub_config stub_file_info 0))"
    by code_simp
  note kept = housekeeping_failures_keep_success
      [of housekeeping_fails stub_config stub_application 0 stub_file_info]
  have r1: "result (process_sheets_application housekeeping_fails stub_config stub_application 0)
            = Return True"
    by (rule mp [OF conjunct1 [OF kept]]) (intro conjI h1 h2 h3)
  have r2: "result (process_single_workflow housekeeping_fails stub_config stub_file_info 0)
            = Return True"
    by (rule mp [OF conjunct2 [OF kept]]) (intro conjI h4 h5)
  show ?thesis
    by (intro conjI h1 h2 h3 w1 r1 h4 h5 w2 r2)
qed

text \<open>
  C4 as claimed (no failure after a satisfied transmit turns the success into a failure,
  on every path) does not hold on the local path: there the manager asks
  \<^verbatim>\<open>complete_transfer_process\<close> (verify, cleanup) after the send, and on \<open>False\<close> logs
  \<^verbatim>\<open>Transfer process completion failed\<close> and returns \<open>False\<close>, here after all five
  files were sent.
\<close>

theorem completion_failure_fails_item:
  "transmits (events (process_single_workflow completion_fails stub_config stub_file_info 0))
     = [Return (outcome 5 5)]
   \<and> spec_send_satisfied (outcome 5 5)
   \<and> result (process_single_workflow completion_fails stub_config stub_file_info 0)
     = Return False"
  by code_simp

section \<open>The upload endpoint\<close>






section \<open>A cycle that raises\<close>

lemma lifetime_stats_frame [simp]:
  "lifetime_stats (m\<lparr>world := w\<rparr>) = lifetime_stats m"
  "lifetime_stats (m\<lparr>running := b\<rparr>) = lifetime_stats m"
  by (simp_all add: lifetime_stats_def)

lemma signal_handlers_keep_totals:
  "lifetime_stats (after (for_each sigs signal_handler m)) = lifetime_stats m"
  by (induction sigs arbitrary: m) (simp_all add: after_andthen signal_handler_def)

lemma deliver_signals_keeps_totals:
  "lifetime_stats (after (deliver_signals c m)) = lifetime_stats m"
  by (simp add: deliver_signals_def signal_handlers_keep_totals split: prod.splits)

lemma blocking_result: "result (blocking c p m) = result (p (world m))"
  by (simp add: blocking_def result_try_finally deliver_signals_returns in_manager_def
      split: prod.splits)

lemma blocking_keeps_totals: "lifetime_stats (after (blocking c p m)) = lifetime_stats m"
  using keeps_in_manager [of p]
  by (simp add: blocking_def after_try_finally deliver_signals_keeps_totals keeps_totals_def)

text \<open>
  C10. In the polling loop, an iteration whose cycle raises an exception adds exactly one
  to \<^verbatim>\<open>total_failed\<close> and leaves \<^verbatim>\<open>total_processed\<close> and \<^verbatim>\<open>total_successful\<close> as they
  were; so counters that satisfied \<open>processed = successful + failed\<close> before the
  iteration do not satisfy it afterwards.
\<close>

theorem failed_cycle_counts_one_failure:
  assumes "result (run_full_workflow c cfg (world m)) = Raise e"
  shows "total_failed (after (cycle_step c cfg m)) = total_failed m + 1
       \<and> total_processed (after (cycle_step c cfg m)) = total_processed m
       \<and> total_successful (after (cycle_step c cfg m)) = total_successful m
       \<and> (total_processed m = total_successful m + total_failed m
          \<longrightarrow> total_processed (after (cycle_step c cfg m))
              \<noteq> total_successful (after (cycle_step c cfg m))
                + total_failed (after (cycle_step c cfg m)))"
proof -
  have r: "result (blocking c (run_full_workflow c cfg) m) = Raise e"
    using assms by (simp add: blocking_result)
  have "lifetime_stats (after (cycle_step c cfg m))
        = (total_processed m, total_successful m, total_failed m + 1)"
    using blocking_keeps_totals [of c "run_full_workflow c cfg" m]
    by (simp add: cycle_step_def after_try_except result_andthen after_andthen r
        count_failed_cycle_def lifetime_stats_def)
  then show ?thesis
    by (simp add: lifetime_stats_def)
qed

text \<open>
  Such a cycle exists: in local mode, when the destination is unreachable and the
  notification of that error fails too, the exception leaves \<^verbatim>\<open>run_local_workflow\<close>;
  the counters go from 0, 0, 0 to 0, 0, 1.
\<close>

theorem failed_cycle_counts_one_failure_witness:
  "result (run_full_workflow notifier_down local_config (world (init_manager 0)))
     = Raise (Exn ''SMTP down'')
   \<and> lifetime_stats (init_manager 0 :: nat manager) = (0, 0, 0)
   \<and> lifetime_stats (after (cycle_step notifier_down local_config (init_manager 0)))
     = (0, 0, 1)"
proof -
  have h: "result (run_full_workflow notifier_down local_config (world (init_manager 0)))
           = Raise (Exn ''SMTP down'')"
    by code_simp
  have z: "lifetime_stats (init_manager 0 :: nat manager) = (0, 0, 0)"
    by (simp add: lifetime_stats_def init_manager_def)
  from failed_cycle_counts_one_failure [OF h] z
  have "lifetime_stats (after (cycle_step notifier_down local_config (init_manager 0)))
        = (0, 0, 1)"
    by (simp add: lifetime_stats_def)
  with h z show ?thesis
    by simp
qed

section \<open>Cancellation of the polling loop\<close>

lemma never_scheduler_sheets_send: "never scheduler_event (sheets_send c cfg files)"
  unfolding sheets_send_def sheets_attempt_def log_failed_files_def
  by (intro never_intros) (simp_all add: event_class_defs)

lemma never_scheduler_local_send: "never scheduler_event (local_send c cfg files)"
  unfolding local_send_def local_attempt_def
  by (intro never_intros) (simp_all add: event_class_defs)

lemma never_scheduler_run_full_workflow: "never scheduler_event (run_full_workflow c cfg)"
  unfolding run_full_workflow_def run_sheets_workflow_def run_local_workflow_def
    process_sheets_application_def process_single_workflow_def sheets_housekeeping_def
    local_completion_def clean_processing_directory_def delete_drive_file_with_user_auth_def
    cleanup_old_files_def notify_def
  by (intro never_intros never_scheduler_sheets_send never_scheduler_local_send)
     (simp_all add: event_class_defs)

lemma quiet_after_signal_append:
  "quiet_after_signal (xs @ ys)
   = (quiet_after_signal xs \<and> quiet_after_signal ys
      \<and> ((\<exists>e \<in> set xs. is_signal e) \<longrightarrow> (\<forall>e \<in> set ys. \<not> is_start e)))"
  by (induction xs) auto

lemma quiet_after_signal_split:
  "quiet_after_signal evs \<Longrightarrow> evs = pre @ Signal_received s # post
   \<Longrightarrow> \<forall>e \<in> set post. \<not> is_start e"
  by (simp add: quiet_after_signal_append is_signal_def)

lemma quiet_no_signal: "\<forall>e \<in> set evs. \<not> is_signal e \<Longrightarrow> quiet_after_signal evs"
  by (induction evs) simp_all

lemma quiet_no_start: "\<forall>e \<in> set evs. \<not> is_start e \<Longrightarrow> quiet_after_signal evs"
  by (induction evs) simp_all

lemma quiet_signals: "quiet_after_signal (map Signal_received sigs)"
  by (rule quiet_no_start) (auto simp: is_start_def)

lemma orderly_ret: "orderly (ret x) m"
  by (simp add: orderly_def)

lemma orderly_get_running: "orderly get_running m"
  by (simp add: orderly_def get_running_def)

lemma orderly_emit: "\<not> is_signal ev \<Longrightarrow> running m \<or> \<not> is_start ev \<Longrightarrow> orderly (emit ev) m"
  by (auto simp: orderly_def)

lemma orderly_andthen:
  assumes p: "orderly p m"
    and f: "\<And>x. result (p m) = Return x \<Longrightarrow> orderly (f x) (after (p m))"
  shows "orderly (andthen p f) m"
proof (cases "result (p m)")
  case (Raise e)
  with p show ?thesis
    by (simp add: orderly_def run_simps)
next
  case (Return x)
  from f [OF Return] p Return show ?thesis
    unfolding orderly_def
    by (simp add: run_simps quiet_after_signal_append) blast
qed

lemma orderly_try_except:
  assumes p: "orderly p m"
    and h: "\<And>e. result (p m) = Raise e \<Longrightarrow> orderly (h e) (after (p m))"
  shows "orderly (try_except p h) m"
proof (cases "result (p m)")
  case (Return x)
  with p show ?thesis
    by (simp add: orderly_def run_simps)
next
  case (Raise e)
  from h [OF Raise] p Raise show ?thesis
    unfolding orderly_def
    by (simp add: run_simps quiet_after_signal_append) blast
qed

lemma signal_handlers_run:
  "events (for_each sigs signal_handler m) = map Signal_received sigs
   \<and> running (after (for_each sigs signal_handler m)) = (running m \<and> sigs = [])"
  by (induction sigs arbitrary: m) (auto simp: run_simps signal_handler_def)

lemma deliver_signals_run:
  "\<exists>sigs. events (deliver_signals c m) = map Signal_received sigs
     \<and> running (after (deliver_signals c m)) = (running m \<and> sigs = [])"
  by (auto simp: deliver_signals_def signal_handlers_run split: prod.splits)

lemma blocking_run:
  "\<exists>sigs. events (blocking c p m) = events (p (world m)) @ map Signal_received sigs
     \<and> running (after (blocking c p m)) = (running m \<and> sigs = [])"
proof -
  obtain sigs where "events (deliver_signals c (after (in_manager p m))) = map Signal_received sigs"
    and "running (after (deliver_signals c (after (in_manager p m))))
         = (running (after (in_manager p m)) \<and> sigs = [])"
    using deliver_signals_run by blast
  then show ?thesis
    by (auto simp: blocking_def run_simps in_manager_def split: prod.splits)
qed

lemma orderly_blocking:
  assumes "never is_signal p" and "running m \<or> never is_start p"
  shows "orderly (blocking c p) m"
proof -
  obtain sigs where ev: "events (blocking c p m) = events (p (world m)) @ map Signal_received sigs"
    and rn: "running (after (blocking c p m)) = (running m \<and> sigs = [])"
    using blocking_run by blast
  have ns: "\<forall>e \<in> set (events (p (world m))). \<not> is_signal e"
    using assms(1) by (simp add: never_def)
  have q: "quiet_after_signal (events (p (world m)) @ map Signal_received sigs)"
    by (auto simp: quiet_after_signal_append quiet_no_signal [OF ns] quiet_signals
        is_start_def)
  show ?thesis
    unfolding orderly_def ev rn
    using q ns assms(2) by (auto simp: never_def is_start_def)
qed


lemma orderly_add_totals: "orderly (add_totals st) m"
  and orderly_count_failed_cycle: "orderly count_failed_cycle m"
  and orderly_log_lifetime_statistics: "orderly log_lifetime_statistics m"
  by (simp_all add: orderly_def add_totals_def count_failed_cycle_def
      log_lifetime_statistics_def is_signal_def is_start_def)

lemma never_clock: "never K (clock c)"
  by (simp add: never_def clock_def split: prod.splits)

lemma orderly_clock: "orderly (blocking c (clock c)) m"
  by (rule orderly_blocking) (simp_all add: never_clock)

lemma never_signal_run_full_workflow: "never is_signal (run_full_workflow c cfg)"
  and never_start_run_full_workflow: "never is_start (run_full_workflow c cfg)"
  using never_scheduler_run_full_workflow [of c cfg]
  by (simp_all add: never_def scheduler_event_def)

lemma orderly_cycle_step: "orderly (cycle_step c cfg) m"
  unfolding cycle_step_def
  by (intro orderly_try_except orderly_andthen orderly_blocking orderly_add_totals
      orderly_count_failed_cycle orderly_emit never_signal_run_full_workflow disjI2
      never_start_run_full_workflow)
     (simp_all add: is_signal_def is_start_def)

lemma orderly_slice:
  "running m \<Longrightarrow> orderly (blocking c (call (\<lambda>_. Slice_sleep d) (sleep c d))) m"
  by (rule orderly_blocking) (simp_all add: never_def is_signal_def)

lemma orderly_sleep_slices: "orderly (sleep_slices c n) m"
proof (induction n arbitrary: m)
  case 0
  show ?case by (simp add: orderly_ret)
next
  case (Suc n)
  show ?case
    unfolding sleep_slices.simps
    by (rule orderly_andthen [OF orderly_get_running])
       (auto simp: get_running_def intro!: orderly_ret orderly_andthen orderly_slice Suc.IH)
qed

lemma orderly_wait_for_next_cycle: "orderly (wait_for_next_cycle c check_interval cycle_start) m"
  unfolding wait_for_next_cycle_def Let_def if_then_def
  by (rule orderly_andthen [OF orderly_clock])
     (auto simp: get_running_def is_signal_def is_start_def
        intro!: orderly_andthen orderly_clock orderly_sleep_slices orderly_get_running
          orderly_ret orderly_slice orderly_emit)

lemma orderly_polling_loop: "orderly (polling_loop fuel c cfg check_interval cycle_count) m"
proof (induction fuel arbitrary: m cycle_count)
  case 0
  show ?case
    unfolding polling_loop.simps
    by (rule orderly_andthen [OF orderly_get_running]) (simp add: orderly_ret)
next
  case (Suc fuel)
  show ?case
    unfolding polling_loop.simps
    by (rule orderly_andthen [OF orderly_get_running])
       (auto simp: get_running_def is_signal_def is_start_def
          intro!: orderly_andthen orderly_clock orderly_cycle_step orderly_get_running
            orderly_ret orderly_emit orderly_wait_for_next_cycle Suc.IH)
qed

lemma orderly_run_continuous_mode: "orderly (run_continuous_mode fuel c cfg check_interval) m"
  unfolding run_continuous_mode_def
  by (auto intro!: orderly_andthen orderly_clock orderly_polling_loop orderly_ret
        orderly_log_lifetime_statistics split: option.splits)

lemma never_mono: "never K' p \<Longrightarrow> (\<And>ev. K ev \<Longrightarrow> K' ev) \<Longrightarrow> never K p"
  by (auto simp: never_def)

lemma never_blocking:
  assumes "never K p" and "\<And>s. \<not> K (Signal_received s)"
  shows "never K (blocking c p)"
proof -
  have "\<forall>ev \<in> set (events (blocking c p m)). \<not> K ev" for m
    using blocking_run [of c p m] assms by (auto simp: never_def)
  then show ?thesis
    by (simp add: never_def)
qed

lemma never_manager_steps:
  "never K get_running" "never K (add_totals st)" "never K count_failed_cycle"
  by (simp_all add: never_def get_running_def add_totals_def count_failed_cycle_def)

lemma long_slice_simps [simp]:
  "\<not> long_slice (Signal_received s)" "\<not> long_slice (Cycle_start n)"
  "\<not> long_slice (Log_error x)" "\<not> long_slice (Log_warning x)"
  "\<not> long_slice (Log_lifetime_statistics a b k)"
  "long_slice (Slice_sleep d) = (\<not> (0 < d \<and> d \<le> 1))"
  by (simp_all add: long_slice_def)

lemma short_cycle_step: "never long_slice (cycle_step c cfg)"
  unfolding cycle_step_def
  by (intro never_try_except never_andthen never_blocking never_manager_steps never_emit
      never_mono [OF never_start_run_full_workflow])
     (auto simp: long_slice_def is_start_def split: event.splits)

lemma short_sleep_slices: "never long_slice (sleep_slices c n)"
  by (induction n)
     (auto intro!: never_ret never_andthen never_manager_steps never_blocking never_call)

lemma short_wait_for_next_cycle: "never long_slice (wait_for_next_cycle c check_interval cycle_start)"
  unfolding wait_for_next_cycle_def Let_def if_then_def
  by (auto intro!: never_andthen never_blocking never_clock short_sleep_slices
        never_manager_steps never_ret never_call never_emit
      simp: frac_lt_1 less_imp_le)

lemma short_polling_loop: "never long_slice (polling_loop fuel c cfg check_interval cycle_count)"
  by (induction fuel arbitrary: cycle_count)
     (auto intro!: never_andthen never_manager_steps never_ret never_emit never_blocking
        never_clock short_cycle_step short_wait_for_next_cycle)

lemma never_log_lifetime_statistics:
  "(\<And>a b k. \<not> K (Log_lifetime_statistics a b k)) \<Longrightarrow> never K log_lifetime_statistics"
  by (simp add: never_def log_lifetime_statistics_def)

lemma short_run_continuous_mode: "never long_slice (run_continuous_mode fuel c cfg check_interval)"
  unfolding run_continuous_mode_def
  by (intro never_andthen never_blocking never_clock short_polling_loop never_ret
      never_case_option never_log_lifetime_statistics) simp_all

lemma polling_loop_cut_while_running:
  "result (polling_loop fuel c cfg check_interval cycle_count m) = Return None
   \<Longrightarrow> running (after (polling_loop fuel c cfg check_interval cycle_count m))"
proof (induction fuel arbitrary: cycle_count m)
  case 0
  then show ?case
    by (auto simp: run_simps get_running_def split: if_splits)
next
  case (Suc fuel)
  from Suc.prems show ?case
    by (auto simp: run_simps get_running_def split: if_splits reply.splits dest!: Suc.IH)
qed

lemma run_continuous_mode_cut_while_running:
  "result (run_continuous_mode fuel c cfg check_interval m) = Return None
   \<Longrightarrow> running (after (run_continuous_mode fuel c cfg check_interval m))"
  unfolding run_continuous_mode_def
  by (auto simp: run_simps log_lifetime_statistics_def
      split: reply.splits option.splits dest!: polling_loop_cut_while_running)



text \<open>
  C9. Once the running flag is cleared the polling loop starts no further cycle, and a
  sleep between two cycles ends within the one-second slice in which the flag was
  cleared. In the model the flag is cleared by \<^verbatim>\<open>signal_handler\<close>, which runs when a call
  of the outside world returns during which a signal arrived (a cycle, a slice of sleep,
  a reading of the clock), and the loop reads the flag where the source does: at the loop
  head, after the cycle, before each slice and before the fractional rest. For every run
  of \<^verbatim>\<open>run_continuous_mode\<close>, however many iterations it is allowed and whatever the
  collaborators and the clock do: after a run of the handler there is no entry into the
  loop body and no further slice of sleep (the cycle in which the signal arrived is
  completed); every slice of sleep lasts at most one second; a flag that is cleared before
  the loop lets no cycle start; and when the handler has run, the loop has been left (the
  run is not one that was cut off while still polling).
\<close>

theorem cleared_flag_stops_polling:
  "(events (run_continuous_mode fuel c cfg check_interval m) = pre @ Signal_received s # post
      \<longrightarrow> (\<forall>ev \<in> set post. \<not> is_start ev))
   \<and> (Slice_sleep d \<in> set (events (run_continuous_mode fuel c cfg check_interval m))
      \<longrightarrow> 0 < d \<and> d \<le> 1)
   \<and> (\<not> running m
      \<longrightarrow> (\<forall>ev \<in> set (events (run_continuous_mode fuel c cfg check_interval m)).
            \<not> is_start ev))
   \<and> (Signal_received s \<in> set (events (run_continuous_mode fuel c cfg check_interval m))
      \<longrightarrow> \<not> running (after (run_continuous_mode fuel c cfg check_interval m))
          \<and> result (run_continuous_mode fuel c cfg check_interval m) \<noteq> Return None)"
proof -
  let ?R = "run_continuous_mode fuel c cfg check_interval m"
  have ord: "orderly (run_continuous_mode fuel c cfg check_interval) m"
    by (rule orderly_run_continuous_mode)
  have 1: "events ?R = pre @ Signal_received s # post \<longrightarrow> (\<forall>ev \<in> set post. \<not> is_start ev)"
  proof
    assume eq: "events ?R = pre @ Signal_received s # post"
    from ord have "quiet_after_signal (events ?R)"
      by (simp add: orderly_def)
    from quiet_after_signal_split [OF this eq] show "\<forall>ev \<in> set post. \<not> is_start ev" .
  qed
  have 2: "Slice_sleep d \<in> set (events ?R) \<longrightarrow> 0 < d \<and> d \<le> 1"
  proof
    assume "Slice_sleep d \<in> set (events ?R)"
    with short_run_continuous_mode [of fuel c cfg check_interval]
    have "\<not> long_slice (Slice_sleep d)"
      unfolding never_def by blast
    then show "0 < d \<and> d \<le> 1"
      by simp
  qed
  have 3: "\<not> running m \<longrightarrow> (\<forall>ev \<in> set (events ?R). \<not> is_start ev)"
    using ord by (simp add: orderly_def)
  have 4: "Signal_received s \<in> set (events ?R)
           \<longrightarrow> \<not> running (after ?R) \<and> result ?R \<noteq> Return None"
  proof
    assume sg: "Signal_received s \<in> set (events ?R)"
    have "is_signal (Signal_received s)"
      by (simp add: is_signal_def)
    with sg ord have nr: "\<not> running (after ?R)"
      unfolding orderly_def by blast
    with run_continuous_mode_cut_while_running [of fuel c cfg check_interval m]
    show "\<not> running (after ?R) \<and> result ?R \<noteq> Return None"
      by blast
  qed
  from 1 2 3 4 show ?thesis
    by blast
qed

lemma signal_run:
  "run_continuous_mode 3 signal_in_second_slice stub_config 30 (init_manager 0)
   = (Return (Some 1),
      \<lparr>world = 21, running = False, total_processed = 1, total_successful = 1,
        total_failed = 0\<rparr>,
      [Cycle_start 1, Test_connection, Get_pending_applications,
       Find_file_in_drive (JStr ''A1''), Download_file_from_drive, Create_file_info,
       Process_file, Transmit (Return (outcome 5 5)), Update_transmission_time,
       Load_user_credentials, Build_drive_service, Trash_drive_file, Cleanup_local_file,
       Rmtree ''processing/A1'', Path_exists ''processing'', Is_dir ''processing'',
       Rmtree ''processing'', Mkdir ''processing'',
       Log_statistics
         \<lparr>pending_applications = 1, downloaded_files = 0, processed_count = 1,
           successful_transfers = 1, failed_transfers = 0, total_count = 0\<rparr>,
       Slice_sleep 1, Slice_sleep 1]
      @ Signal_received 15 # [Log_lifetime_statistics 1 1 0])"
  by code_simp

lemma stopped_run:
  "run_continuous_mode 3 signal_in_second_slice stub_config 30 stopped_manager
   = (Return (Some 0), stopped_manager, [Log_lifetime_statistics 0 0 0])"
  by code_simp

text \<open>
  A signal during the second slice after the first cycle, with a check interval of 30
  seconds: two slices are slept, not thirty, and no second cycle starts; and a manager
  whose flag is cleared from the start only writes its summary.
\<close>

theorem cleared_flag_stops_polling_witness:
  "events (run_continuous_mode 3 signal_in_second_slice stub_config 30 (init_manager 0))
     = [Cycle_start 1, Test_connection, Get_pending_applications,
        Find_file_in_drive (JStr ''A1''), Download_file_from_drive, Create_file_info,
        Process_file, Transmit (Return (outcome 5 5)), Update_transmission_time,
        Load_user_credentials, Build_drive_service, Trash_drive_file, Cleanup_local_file,
        Rmtree ''processing/A1'', Path_exists ''processing'', Is_dir ''processing'',
        Rmtree ''processing'', Mkdir ''processing'',
        Log_statistics
          \<lparr>pending_applications = 1, downloaded_files = 0, processed_count = 1,
            successful_transfers = 1, failed_transfers = 0, total_count = 0\<rparr>,
        Slice_sleep 1, Slice_sleep 1]
       @ Signal_received 15 # [Log_lifetime_statistics 1 1 0]
   \<and> Slice_sleep 1
       \<in> set (events (run_continuous_mode 3 signal_in_second_slice stub_config 30
                        (init_manager 0)))
   \<and> Signal_received 15
       \<in> set (events (run_continuous_mode 3 signal_in_second_slice stub_config 30
                        (init_manager 0)))
   \<and> \<not> running (after (run_continuous_mode 3 signal_in_second_slice stub_config 30
                          (init_manager 0)))
   \<and> result (run_continuous_mode 3 signal_in_second_slice stub_config 30 (init_manager 0))
       \<noteq> Return None
   \<and> \<not> running stopped_manager
   \<and> events (run_continuous_mode 3 signal_in_second_slice stub_config 30 stopped_manager)
       = [Log_lifetime_statistics 0 0 0]"
proof -
  let ?R = "run_continuous_mode 3 signal_in_second_slice stub_config 30 (init_manager 0)"
  note run = signal_run
  have ev: "events ?R
     = [Cycle_start 1, Test_connection, Get_pending_applications,
        Find_file_in_drive (JStr ''A1''), Download_file_from_drive, Create_file_info,
        Process_file, Transmit (Return (outcome 5 5)), Update_transmission_time,
        Load_user_credentials, Build_drive_service, Trash_drive_file, Cleanup_local_file,
        Rmtree ''processing/A1'', Path_exists ''processing'', Is_dir ''processing'',
        Rmtree ''processing'', Mkdir ''processing'',
        Log_statistics
          \<lparr>pending_applications = 1, downloaded_files = 0, processed_count = 1,
            successful_transfers = 1, failed_transfers = 0, total_count = 0\<rparr>,
        Slice_sleep 1, Slice_sleep 1]
       @ Signal_received 15 # [Log_lifetime_statistics 1 1 0]"
    unfolding run by simp
  have sl: "Slice_sleep 1 \<in> set (events ?R)"
    unfolding ev by simp
  have sg: "Signal_received 15 \<in> set (events ?R)"
    unfolding ev by simp
  from cleared_flag_stops_polling
         [of 3 signal_in_second_slice stub_config 30 "init_manager 0" _ 15 _ 1] sg
  have left: "\<not> running (after ?R) \<and> result ?R \<noteq> Return None"
    by blast
  have st: "\<not> running stopped_manager"
    by (simp add: stopped_manager_def)
  have se: "events (run_continuous_mode 3 signal_in_second_slice stub_config 30 stopped_manager)
            = [Log_lifetime_statistics 0 0 0]"
    unfolding stopped_run by simp
  from ev sl sg left st se show ?thesis
    by (intro conjI) simp_all
qed

end
